theory Spec2Isabelle
  imports Complex_Main
begin

section \<open>Scalars, vectors and matrices\<close>

text \<open>
  The source computes with \<open>double\<close>. The embedding reads a \<open>double\<close> as a
  \<^typ>\<open>real\<close>: comparisons such as \<open>axis.x==1.0\<close> are equalities of reals, and sums
  and products are exact. A three-vector is a triple, a 3x3 matrix a triple of rows.
\<close>

type_synonym Vector3d = "real \<times> real \<times> real"

type_synonym Matrix3d = "Vector3d \<times> Vector3d \<times> Vector3d"

definition vec_add :: "Vector3d \<Rightarrow> Vector3d \<Rightarrow> Vector3d" where
  "vec_add u v = (case u of (a, b, c) \<Rightarrow> case v of (d, e, f) \<Rightarrow> (a + d, b + e, c + f))"

definition vec_sub :: "Vector3d \<Rightarrow> Vector3d \<Rightarrow> Vector3d" where
  "vec_sub u v = (case u of (a, b, c) \<Rightarrow> case v of (d, e, f) \<Rightarrow> (a - d, b - e, c - f))"

definition vec_scale :: "real \<Rightarrow> Vector3d \<Rightarrow> Vector3d" where
  "vec_scale k v = (case v of (a, b, c) \<Rightarrow> (k * a, k * b, k * c))"

definition vec_dot :: "Vector3d \<Rightarrow> Vector3d \<Rightarrow> real" where
  "vec_dot u v = (case u of (a, b, c) \<Rightarrow> case v of (d, e, f) \<Rightarrow> a * d + b * e + c * f)"

definition mat_transpose :: "Matrix3d \<Rightarrow> Matrix3d" where
  "mat_transpose A =
     (case A of ((a, b, c), (d, e, f), (g, h, i)) \<Rightarrow> ((a, d, g), (b, e, h), (c, f, i)))"

definition mat_vec :: "Matrix3d \<Rightarrow> Vector3d \<Rightarrow> Vector3d" where
  "mat_vec A v = (case A of (r1, r2, r3) \<Rightarrow> (vec_dot r1 v, vec_dot r2 v, vec_dot r3 v))"

definition mat_mul :: "Matrix3d \<Rightarrow> Matrix3d \<Rightarrow> Matrix3d" where
  "mat_mul A B =
     (case mat_transpose B of (c1, c2, c3) \<Rightarrow>
        case A of (r1, r2, r3) \<Rightarrow>
          ((vec_dot r1 c1, vec_dot r1 c2, vec_dot r1 c3),
           (vec_dot r2 c1, vec_dot r2 c2, vec_dot r2 c3),
           (vec_dot r3 c1, vec_dot r3 c2, vec_dot r3 c3)))"

definition mat_add :: "Matrix3d \<Rightarrow> Matrix3d \<Rightarrow> Matrix3d" where
  "mat_add A B =
     (case A of (r1, r2, r3) \<Rightarrow> case B of (s1, s2, s3) \<Rightarrow>
        (vec_add r1 s1, vec_add r2 s2, vec_add r3 s3))"

definition mat_scale :: "real \<Rightarrow> Matrix3d \<Rightarrow> Matrix3d" where
  "mat_scale k A = (case A of (r1, r2, r3) \<Rightarrow> (vec_scale k r1, vec_scale k r2, vec_scale k r3))"

definition mat_identity :: Matrix3d where
  "mat_identity = ((1, 0, 0), (0, 1, 0), (0, 0, 1))"

definition skew :: "Vector3d \<Rightarrow> Matrix3d" where
  "skew v = (case v of (a, b, c) \<Rightarrow> ((0, - c, b), (c, 0, - a), (- b, a, 0)))"

definition vec_norm :: "Vector3d \<Rightarrow> real" where
  "vec_norm v = sqrt (vec_dot v v)"

text \<open>
  \<open>Eigen::Vector3d::normalize\<close> divides the vector by its Euclidean norm. On the zero
  vector the division is by zero: HOL gives the zero vector there, the program does not
  give a unit vector either.
\<close>

definition vec_normalize :: "Vector3d \<Rightarrow> Vector3d" where
  "vec_normalize v = (case v of (a, b, c) \<Rightarrow> (a / vec_norm v, b / vec_norm v, c / vec_norm v))"

text \<open>
  \<open>Eigen::Quaterniond(w,x,y,z).matrix()\<close>: the rotation matrix of a quaternion, by the
  usual formula and with no normalisation of the quaternion.
\<close>

definition quaternion_matrix :: "real \<Rightarrow> real \<Rightarrow> real \<Rightarrow> real \<Rightarrow> Matrix3d" where
  "quaternion_matrix w x y z =
     ((1 - (2 * y * y + 2 * z * z), 2 * x * y - 2 * z * w, 2 * x * z + 2 * y * w),
      (2 * x * y + 2 * z * w, 1 - (2 * x * x + 2 * z * z), 2 * y * z - 2 * x * w),
      (2 * x * z - 2 * y * w, 2 * y * z + 2 * x * w, 1 - (2 * x * x + 2 * y * y)))"

section \<open>Spatial primitives\<close>

text \<open>
  Modelled from the spec: the classes \<open>SE3\<close> and \<open>Inertia\<close> of
  \<open>pinocchio/spatial\<close> are not among the sources. A transform is a rotation matrix
  and a translation, composed by the rigid-body product; its identity is \<open>(I, 0)\<close>.
\<close>

record SE3 =
  se3_rotation :: Matrix3d
  se3_translation :: Vector3d

definition SE3_Identity :: SE3 where
  "SE3_Identity = \<lparr>se3_rotation = mat_identity, se3_translation = (0, 0, 0)\<rparr>"

definition SE3_mult :: "SE3 \<Rightarrow> SE3 \<Rightarrow> SE3" where
  "SE3_mult M1 M2 =
     \<lparr>se3_rotation = mat_mul (se3_rotation M1) (se3_rotation M2),
      se3_translation =
        vec_add (se3_translation M1) (mat_vec (se3_rotation M1) (se3_translation M2))\<rparr>"

text \<open>
  Modelled from the spec: a spatial inertia is a mass, the offset of the centre of mass
  and the 3x3 inertia tensor about it. The identity inertia is the one the spec
  describes ("identity inertia (mass = 0)"). Transport through a transform keeps the
  mass; the merge of two inertias of a shared frame adds the masses, takes the
  barycentre as lever and adds the tensors with the parallel-axis term. (Where both
  masses are zero the barycentre divides by zero; no statement below reads the lever or
  the tensor of a merged inertia.)
\<close>

record Inertia =
  inertia_mass :: real
  inertia_lever :: Vector3d
  inertia_tensor :: Matrix3d

definition Inertia_Identity :: Inertia where
  "Inertia_Identity =
     \<lparr>inertia_mass = 0, inertia_lever = (0, 0, 0), inertia_tensor = mat_identity\<rparr>"

definition Inertia_Zero :: Inertia where
  "Inertia_Zero =
     \<lparr>inertia_mass = 0, inertia_lever = (0, 0, 0),
      inertia_tensor = ((0, 0, 0), (0, 0, 0), (0, 0, 0))\<rparr>"

definition se3_act :: "SE3 \<Rightarrow> Inertia \<Rightarrow> Inertia" where
  "se3_act M Y =
     \<lparr>inertia_mass = inertia_mass Y,
      inertia_lever = vec_add (se3_translation M) (mat_vec (se3_rotation M) (inertia_lever Y)),
      inertia_tensor =
        mat_mul (mat_mul (se3_rotation M) (inertia_tensor Y)) (mat_transpose (se3_rotation M))\<rparr>"

definition Inertia_add :: "Inertia \<Rightarrow> Inertia \<Rightarrow> Inertia" where
  "Inertia_add Y1 Y2 =
     (let m1 = inertia_mass Y1; m2 = inertia_mass Y2;
          d = skew (vec_sub (inertia_lever Y1) (inertia_lever Y2))
      in \<lparr>inertia_mass = m1 + m2,
          inertia_lever =
            vec_scale (1 / (m1 + m2))
              (vec_add (vec_scale m1 (inertia_lever Y1)) (vec_scale m2 (inertia_lever Y2))),
          inertia_tensor =
            mat_add (mat_add (inertia_tensor Y1) (inertia_tensor Y2))
              (mat_scale (- (m1 * m2 / (m1 + m2))) (mat_mul d d))\<rparr>)"

section \<open>The URDF link tree\<close>

text \<open>
  The input types are those of the URDF library (\<open>urdf_model\<close>): a pose, an inertial
  block, joint limits, a joint and a link. A null \<open>shared_ptr\<close> is \<open>None\<close>. Of a
  link's visual only its presence is read. The children of a link are held in the link,
  so a link is a tree; the parent pointer of a link (\<open>getParent()\<close>) is passed along
  the traversal, see \<open>parseTree\<close>.
\<close>

record Rotation =
  rot_x :: real
  rot_y :: real
  rot_z :: real
  rot_w :: real

record Pose =
  position :: Vector3d
  rotation :: Rotation

record Inertial =
  origin :: Pose
  mass :: real
  ixx :: real
  ixy :: real
  ixz :: real
  iyy :: real
  iyz :: real
  izz :: real

record JointLimits =
  lower :: real
  upper :: real
  effort :: real
  velocity :: real

datatype JointType = UNKNOWN | REVOLUTE | CONTINUOUS | PRISMATIC | FLOATING | PLANAR | FIXED

record Joint =
  joint_name :: string
  joint_type :: JointType
  axis :: Vector3d
  parent_to_joint_origin_transform :: Pose
  joint_limits :: "JointLimits option"

datatype Link =
  Link (link_name: string) (inertial: "Inertial option") (visual: bool)
       (parent_joint: "Joint option") (child_links: "Link list")

section \<open>URDF value converters\<close>

text \<open>\<open>convertFromUrdf(const ::urdf::Inertial &)\<close>.\<close>

definition convertFromUrdf_Inertial :: "Inertial \<Rightarrow> Inertia" where
  "convertFromUrdf_Inertial Y =
     (let p = position (origin Y); q = rotation (origin Y);
          com = p;
          R = quaternion_matrix (rot_w q) (rot_x q) (rot_y q) (rot_z q);
          I = ((ixx Y, ixy Y, ixz Y), (ixy Y, iyy Y, iyz Y), (ixz Y, iyz Y, izz Y))
      in \<lparr>inertia_mass = mass Y, inertia_lever = com,
          inertia_tensor = mat_mul (mat_mul R I) (mat_transpose R)\<rparr>)"

text \<open>\<open>convertFromUrdf(const ::urdf::Pose &)\<close>.\<close>

definition convertFromUrdf_Pose :: "Pose \<Rightarrow> SE3" where
  "convertFromUrdf_Pose M =
     (let p = position M; q = rotation M
      in \<lparr>se3_rotation = quaternion_matrix (rot_w q) (rot_x q) (rot_y q) (rot_z q),
          se3_translation = p\<rparr>)"

datatype AxisCartesian = AXIS_X | AXIS_Y | AXIS_Z | AXIS_UNALIGNED

definition extractCartesianAxis :: "Vector3d \<Rightarrow> AxisCartesian" where
  "extractCartesianAxis a =
     (case a of (x, y, z) \<Rightarrow>
        if x = 1 \<and> y = 0 \<and> z = 0 then AXIS_X
        else if x = 0 \<and> y = 1 \<and> z = 0 then AXIS_Y
        else if x = 0 \<and> y = 0 \<and> z = 1 then AXIS_Z
        else AXIS_UNALIGNED)"

section \<open>The model builder\<close>

text \<open>
  Modelled from the spec: the class \<open>Model\<close> of \<open>pinocchio/multibody/model.hpp\<close> is
  not among the sources. Its fields are those of the spec's data model; index 0 holds
  the "universe" pseudo-joint. A joint descriptor is one of the spec's variants.
\<close>

datatype JointModel =
    JointModelUniverse
  | JointModelFreeFlyer
  | JointModelRX | JointModelRY | JointModelRZ
  | JointModelRevoluteUnaligned Vector3d
  | JointModelPX | JointModelPY | JointModelPZ
  | JointModelFixed

fun joint_nq :: "JointModel \<Rightarrow> nat" where
  "joint_nq JointModelUniverse = 0"
| "joint_nq JointModelFixed = 0"
| "joint_nq JointModelFreeFlyer = 7"
| "joint_nq _ = 1"

fun joint_nv :: "JointModel \<Rightarrow> nat" where
  "joint_nv JointModelUniverse = 0"
| "joint_nv JointModelFixed = 0"
| "joint_nv JointModelFreeFlyer = 6"
| "joint_nv _ = 1"

type_synonym LimitVectors = "real list \<times> real list \<times> real list \<times> real list"

type_synonym FixedBody = "nat \<times> SE3 \<times> string \<times> bool"

record Model =
  joints :: "JointModel list"
  parents :: "nat list"
  placements :: "SE3 list"
  inertias :: "Inertia list"
  limits :: "LimitVectors list"
  names :: "string list"
  bodyNames :: "string list"
  hasVisual :: "bool list"
  fixedBodies :: "FixedBody list"
  nq :: nat
  nv :: nat

datatype error =
    InvalidArgument string
  | AssertionFailed string
  | PreconditionViolation string

text \<open>
  Modelled from the spec: the model a default-constructed \<open>Model\<close> holds, the universe
  alone. (\<open>parents[0]\<close> is undefined in the spec; the list holds 0 there.)
\<close>

definition Model_init :: Model where
  "Model_init =
     \<lparr>joints = [JointModelUniverse], parents = [0], placements = [SE3_Identity],
      inertias = [Inertia_Zero], limits = [([], [], [], [])], names = [''universe''],
      bodyNames = [''universe''], hasVisual = [False], fixedBodies = [], nq = 0, nv = 0\<rparr>"

text \<open>
  Modelled from the spec: \<open>existJointName\<close> and \<open>getJointId\<close>, the lookup from a joint
  name to its index. The spec does not say what \<open>getJointId\<close> does with a name the
  model does not hold; here it fails.
\<close>

definition existJointName :: "Model \<Rightarrow> string \<Rightarrow> bool" where
  "existJointName model name = (name \<in> set (names model))"

fun find_index_from :: "nat \<Rightarrow> string \<Rightarrow> string list \<Rightarrow> nat option" where
  "find_index_from i name [] = None"
| "find_index_from i name (n # ns) =
     (if n = name then Some i else find_index_from (Suc i) name ns)"

definition getJointId :: "Model \<Rightarrow> string \<Rightarrow> error + nat" where
  "getJointId model name =
     (case find_index_from 0 name (names model) of
        None \<Rightarrow> Inl (PreconditionViolation (''no joint named '' @ name))
      | Some i \<Rightarrow> Inr i)"

text \<open>
  Modelled from the spec: \<open>addBody\<close> "assigns a new index i > parent and updates nq,
  nv" and the builder "enforces the parent-before-child invariant": a parent that is not
  an index of the model is refused. The new joint takes the next index.
\<close>

definition addBody ::
  "nat \<Rightarrow> JointModel \<Rightarrow> SE3 \<Rightarrow> Inertia \<Rightarrow> real list \<Rightarrow> real list \<Rightarrow> real list \<Rightarrow> real list
     \<Rightarrow> string \<Rightarrow> string \<Rightarrow> bool \<Rightarrow> Model \<Rightarrow> error + Model" where
  "addBody parent j placement Y maxEffort maxVelocity lowerPosition upperPosition
     jointName bodyName vis model =
     (if parent < length (joints model) then
        Inr (model\<lparr>joints := joints model @ [j],
                   parents := parents model @ [parent],
                   placements := placements model @ [placement],
                   inertias := inertias model @ [Y],
                   limits := limits model @ [(maxEffort, maxVelocity, lowerPosition, upperPosition)],
                   names := names model @ [jointName],
                   bodyNames := bodyNames model @ [bodyName],
                   hasVisual := hasVisual model @ [vis],
                   nq := nq model + joint_nq j,
                   nv := nv model + joint_nv j\<rparr>)
      else Inl (PreconditionViolation ''addBody: parent is not a joint of the model''))"

text \<open>
  Modelled from the spec: the overload of \<open>addBody\<close> that takes no limits; "absent
  limits leave the corresponding vectors empty".
\<close>

definition addBody_nolimits ::
  "nat \<Rightarrow> JointModel \<Rightarrow> SE3 \<Rightarrow> Inertia \<Rightarrow> string \<Rightarrow> string \<Rightarrow> bool \<Rightarrow> Model \<Rightarrow> error + Model" where
  "addBody_nolimits parent j placement Y jointName bodyName vis model =
     addBody parent j placement Y [] [] [] [] jointName bodyName vis model"

text \<open>
  Modelled from the spec: \<open>addFixedBody\<close> "appends to fixedBodies only";
  \<open>mergeFixedBody\<close> "transports inertia through placement and adds it to
  inertias[parent]" (a list update, which leaves the list as it is when the index is
  out of range).
\<close>

definition addFixedBody :: "nat \<Rightarrow> SE3 \<Rightarrow> string \<Rightarrow> bool \<Rightarrow> Model \<Rightarrow> Model" where
  "addFixedBody parent placement bodyName vis model =
     model\<lparr>fixedBodies := fixedBodies model @ [(parent, placement, bodyName, vis)]\<rparr>"

definition mergeFixedBody :: "nat \<Rightarrow> SE3 \<Rightarrow> Inertia \<Rightarrow> Model \<Rightarrow> Model" where
  "mergeFixedBody parent placement Y model =
     model\<lparr>inertias :=
       (inertias model)[parent := Inertia_add (inertias model ! parent) (se3_act placement Y)]\<rparr>"

section \<open>The tree compiler\<close>

text \<open>
  The four limit vectors of a one-degree-of-freedom joint: empty \<open>VectorXd\<close>s, resized
  to one entry and filled when the joint has a \<open>limits\<close> block. The order is that of
  the arguments of \<open>addBody\<close>: \<open>maxEffort\<close>, \<open>velocity\<close>, \<open>lowerPosition\<close>,
  \<open>upperPosition\<close>.
\<close>

definition limitVectors :: "JointLimits option \<Rightarrow> LimitVectors" where
  "limitVectors jl =
     (case jl of
        None \<Rightarrow> ([], [], [], [])
      | Some l \<Rightarrow> ([effort l], [velocity l], [lower l], [upper l]))"

text \<open>
  The parent index (the conditional expression initialising \<open>parent\<close>), for the link
  \<open>parentLink\<close> that \<open>link->getParent()\<close> designates.
\<close>

definition parentIndex :: "Link \<Rightarrow> Model \<Rightarrow> error + nat" where
  "parentIndex parentLink model =
     (case parent_joint parentLink of
        None \<Rightarrow>
          (if existJointName model ''root_joint'' then getJointId model ''root_joint''
           else Inr 0)
      | Some pj \<Rightarrow> getJointId model (joint_name pj))"

text \<open>
  The cases \<open>REVOLUTE\<close> and \<open>CONTINUOUS\<close> of the switch on the joint type. The two
  cases have the same text, but for the names \<open>parent_joint_id\<close> and \<open>has_visual\<close> of
  the first, which the source declares nowhere: they are read as the locals \<open>parent\<close>
  and \<open>visual\<close> computed just before the switch. The string \<open>joint_info\<close>, which
  both cases extend (the second one among the arguments of \<open>addBody\<close>), only feeds
  the verbose output and is left out. The inner switch has a \<open>default\<close> case for a
  fifth axis class, which the enumeration does not have.
\<close>

definition addRevolute ::
  "nat \<Rightarrow> Joint \<Rightarrow> string \<Rightarrow> SE3 \<Rightarrow> Inertia \<Rightarrow> bool \<Rightarrow> Model \<Rightarrow> error + Model" where
  "addRevolute parent joint linkName jointPlacement Y vis model =
     (case limitVectors (joint_limits joint) of
        (maxEffort, maxVelocity, lowerPosition, upperPosition) \<Rightarrow>
          (case extractCartesianAxis (axis joint) of
             AXIS_X \<Rightarrow>
               addBody parent JointModelRX jointPlacement Y
                 maxEffort maxVelocity lowerPosition upperPosition
                 (joint_name joint) linkName vis model
           | AXIS_Y \<Rightarrow>
               addBody parent JointModelRY jointPlacement Y
                 maxEffort maxVelocity lowerPosition upperPosition
                 (joint_name joint) linkName vis model
           | AXIS_Z \<Rightarrow>
               addBody parent JointModelRZ jointPlacement Y
                 maxEffort maxVelocity lowerPosition upperPosition
                 (joint_name joint) linkName vis model
           | AXIS_UNALIGNED \<Rightarrow>
               addBody parent (JointModelRevoluteUnaligned (vec_normalize (axis joint)))
                 jointPlacement Y
                 maxEffort maxVelocity lowerPosition upperPosition
                 (joint_name joint) linkName vis model))"

text \<open>
  The case \<open>PRISMATIC\<close>; its limit vectors start as \<open>Eigen::VectorXd(0.)\<close>, of
  size 0. An unaligned axis meets \<open>assert(false && "Only X, Y or Z axis are
  accepted.")\<close>: a failed assertion aborts the call, and is an error here, as every
  \<open>assert\<close> of the source is.
\<close>

definition addPrismatic ::
  "nat \<Rightarrow> Joint \<Rightarrow> string \<Rightarrow> SE3 \<Rightarrow> Inertia \<Rightarrow> bool \<Rightarrow> Model \<Rightarrow> error + Model" where
  "addPrismatic parent joint linkName jointPlacement Y vis model =
     (case limitVectors (joint_limits joint) of
        (maxEffort, maxVelocity, lowerPosition, upperPosition) \<Rightarrow>
          (case extractCartesianAxis (axis joint) of
             AXIS_X \<Rightarrow>
               addBody parent JointModelPX jointPlacement Y
                 maxEffort maxVelocity lowerPosition upperPosition
                 (joint_name joint) linkName vis model
           | AXIS_Y \<Rightarrow>
               addBody parent JointModelPY jointPlacement Y
                 maxEffort maxVelocity lowerPosition upperPosition
                 (joint_name joint) linkName vis model
           | AXIS_Z \<Rightarrow>
               addBody parent JointModelPZ jointPlacement Y
                 maxEffort maxVelocity lowerPosition upperPosition
                 (joint_name joint) linkName vis model
           | AXIS_UNALIGNED \<Rightarrow>
               Inl (AssertionFailed ''Only X, Y or Z axis are accepted.'')))"

text \<open>
  The case \<open>FIXED\<close>, up to the loop that re-parents the children: the inertia of the
  link goes to the parent when the link has an inertial block, and the link is recorded
  as a fixed body at the offset the children will start from.
\<close>

definition addFixed ::
  "nat \<Rightarrow> Joint \<Rightarrow> Link \<Rightarrow> SE3 \<Rightarrow> SE3 \<Rightarrow> Inertia \<Rightarrow> bool \<Rightarrow> Model \<Rightarrow> Model \<times> SE3" where
  "addFixed parent joint link placementOffset jointPlacement Y vis model =
     (let model1 = (if inertial link \<noteq> None then mergeFixedBody parent jointPlacement Y model
                    else model);
          ptjot_se3 = convertFromUrdf_Pose (parent_to_joint_origin_transform joint);
          nextPlacementOffset = SE3_mult placementOffset ptjot_se3
      in (addFixedBody parent nextPlacementOffset (link_name link) vis model1,
          nextPlacementOffset))"

text \<open>
  The body of \<open>parseTree\<close> from the computation of \<open>jointPlacement\<close> to the end of
  the switch on the joint type, for the parent index \<open>parent\<close>: the call of the builder
  the joint type selects, and the placement offset the children of the link start from
  (\<open>nextPlacementOffset\<close>, the identity unless the joint is fixed). A joint type outside
  the four cases meets \<open>assert(false && "Only revolute, prismatic and fixed joints are
  accepted.")\<close>.
\<close>

definition emitJoint :: "Joint \<Rightarrow> Link \<Rightarrow> nat \<Rightarrow> Model \<Rightarrow> SE3 \<Rightarrow> error + Model \<times> SE3" where
  "emitJoint joint link parent model placementOffset =
     (let jointPlacement =
            SE3_mult placementOffset
              (convertFromUrdf_Pose (parent_to_joint_origin_transform joint));
          Y = (case inertial link of
                 Some i \<Rightarrow> convertFromUrdf_Inertial i
               | None \<Rightarrow> Inertia_Identity);
          vis = visual link
      in (case joint_type joint of
            REVOLUTE \<Rightarrow>
              map_sum id (\<lambda>m. (m, SE3_Identity))
                (addRevolute parent joint (link_name link) jointPlacement Y vis model)
          | CONTINUOUS \<Rightarrow>
              map_sum id (\<lambda>m. (m, SE3_Identity))
                (addRevolute parent joint (link_name link) jointPlacement Y vis model)
          | PRISMATIC \<Rightarrow>
              map_sum id (\<lambda>m. (m, SE3_Identity))
                (addPrismatic parent joint (link_name link) jointPlacement Y vis model)
          | FIXED \<Rightarrow>
              Inr (addFixed parent joint link placementOffset jointPlacement Y vis model)
          | _ \<Rightarrow>
              Inl (AssertionFailed
                    ''Only revolute, prismatic and fixed joints are accepted.'')))"

text \<open>
  The body of \<open>parseTree\<close> before its final loop over the children: what one link adds
  to the model, and the placement offset for its children. The argument \<open>getParent\<close>
  is the link that \<open>link->getParent()\<close> designates when the link is visited, \<open>None\<close>
  for a null pointer. Verbose printing is left out.
\<close>

definition visitLink :: "Link \<Rightarrow> Link option \<Rightarrow> Model \<Rightarrow> SE3 \<Rightarrow> error + Model \<times> SE3" where
  "visitLink link getParent model placementOffset =
     (case parent_joint link of
        Some joint \<Rightarrow>
          (case getParent of
             None \<Rightarrow> Inl (AssertionFailed ''link->getParent()!=NULL'')
           | Some parentLink \<Rightarrow>
               if inertial link = None \<and> joint_type joint \<noteq> FIXED then
                 Inl (InvalidArgument (link_name link @ '' - spatial inertia information missing.''))
               else
                 (case parentIndex parentLink model of
                    Inl e \<Rightarrow> Inl e
                  | Inr parent \<Rightarrow> emitJoint joint link parent model placementOffset))
      | None \<Rightarrow>
          (if getParent \<noteq> None then
             Inl (InvalidArgument (link_name link @ '' - joint information missing.''))
           else Inr (model, SE3_Identity)))"

text \<open>
  The parent pointer of the children of a link when they are visited. The library gives
  every child the link that holds it as parent; the case \<open>FIXED\<close> overwrites it
  (\<open>child_link->setParent(link->getParent())\<close>) before the children are visited. This
  is the only write to the tree, and each link is visited once, after the write.
\<close>

definition childParent :: "Link \<Rightarrow> Link option \<Rightarrow> Link option" where
  "childParent link getParent =
     (case parent_joint link of
        Some joint \<Rightarrow> if joint_type joint = FIXED then getParent else Some link
      | None \<Rightarrow> Some link)"

text \<open>
  \<open>parseTree(link, model, placementOffset, verbose)\<close>; \<open>parseChildren\<close> is its final
  loop over \<open>link->child_links\<close>. An exception or a failed assertion ends the
  traversal.
\<close>

fun parseTree :: "Link \<Rightarrow> Link option \<Rightarrow> Model \<Rightarrow> SE3 \<Rightarrow> error + Model"
  and parseChildren :: "Link list \<Rightarrow> Link option \<Rightarrow> Model \<Rightarrow> SE3 \<Rightarrow> error + Model" where
  "parseTree (Link name inert vis joint children) getParent model placementOffset =
     (case visitLink (Link name inert vis joint children) getParent model placementOffset of
        Inl e \<Rightarrow> Inl e
      | Inr (model', nextPlacementOffset) \<Rightarrow>
          parseChildren children
            (childParent (Link name inert vis joint children) getParent)
            model' nextPlacementOffset)"
| "parseChildren [] getParent model placementOffset = Inr model"
| "parseChildren (child # rest) getParent model placementOffset =
     (case parseTree child getParent model placementOffset of
        Inl e \<Rightarrow> Inl e
      | Inr model' \<Rightarrow> parseChildren rest getParent model' placementOffset)"

text \<open>
  The overload of \<open>parseTree\<close> with a root joint: the root link is added under the
  universe with the caller's joint, named \<open>root_joint\<close>, and its children are parsed
  with the identity as offset.
\<close>

definition parseTree_root :: "Link \<Rightarrow> Model \<Rightarrow> SE3 \<Rightarrow> JointModel \<Rightarrow> error + Model" where
  "parseTree_root link model placementOffset root_joint =
     (let Y = (case inertial link of
                 Some i \<Rightarrow> convertFromUrdf_Inertial i
               | None \<Rightarrow> Inertia_Identity)
      in case addBody_nolimits 0 root_joint placementOffset Y ''root_joint'' (link_name link)
                True model of
           Inl e \<Rightarrow> Inl e
         | Inr model' \<Rightarrow> parseChildren (child_links link) (Some link) model' SE3_Identity)"

text \<open>
  The two \<open>buildModel\<close>s. The URDF file parser is a library function: it is the
  argument \<open>parseURDFFile\<close>, which gives the root link of the tree or a null handle.
\<close>

definition buildModel_root ::
  "(string \<Rightarrow> Link option) \<Rightarrow> string \<Rightarrow> JointModel \<Rightarrow> error + Model" where
  "buildModel_root parseURDFFile filename root_joint =
     (case parseURDFFile filename of
        Some rootLink \<Rightarrow> parseTree_root rootLink Model_init SE3_Identity root_joint
      | None \<Rightarrow>
          Inl (InvalidArgument
                (''The file '' @ filename @ '' does not contain a valid URDF model.'')))"

definition buildModel :: "(string \<Rightarrow> Link option) \<Rightarrow> string \<Rightarrow> error + Model" where
  "buildModel parseURDFFile filename =
     (case parseURDFFile filename of
        Some rootLink \<Rightarrow> parseTree rootLink None Model_init SE3_Identity
      | None \<Rightarrow>
          Inl (InvalidArgument
                (''The file '' @ filename @ '' does not contain a valid URDF model.'')))"

section \<open>The Jacobian accessors of the Python bindings\<close>

text \<open>
  \<open>jacobian_proxy\<close> and \<open>get_jacobian_proxy\<close>. The algorithms they call are not among
  the sources and are arguments here: \<open>computeJointJacobians\<close> updates the data,
  \<open>getJointJacobian\<close> fills the matrix it is given (and is handed the data by
  reference, so it returns the data as well); \<open>model_nv\<close> reads \<open>model.nv\<close>. A proxy
  returns the matrix; the data it leaves behind is returned with it.
\<close>

datatype ReferenceFrame = WORLD | LOCAL

type_synonym Matrix6x = "real list list"

definition Matrix6x_Zero :: "nat \<Rightarrow> Matrix6x" where
  "Matrix6x_Zero n = replicate 6 (replicate n 0)"

definition jacobian_proxy ::
  "('model \<Rightarrow> nat) \<Rightarrow> ('model \<Rightarrow> 'data \<Rightarrow> 'q \<Rightarrow> 'data)
     \<Rightarrow> ('model \<Rightarrow> 'data \<Rightarrow> nat \<Rightarrow> ReferenceFrame \<Rightarrow> Matrix6x \<Rightarrow> 'data \<times> Matrix6x)
     \<Rightarrow> 'model \<Rightarrow> 'data \<Rightarrow> 'q \<Rightarrow> nat \<Rightarrow> ReferenceFrame \<Rightarrow> bool \<Rightarrow> 'data \<times> Matrix6x" where
  "jacobian_proxy model_nv computeJointJacobians getJointJacobian model data q jointId rf
     update_kinematics =
     (let J = Matrix6x_Zero (model_nv model);
          data1 = (if update_kinematics then computeJointJacobians model data q else data)
      in getJointJacobian model data1 jointId rf J)"

definition get_jacobian_proxy ::
  "('model \<Rightarrow> nat)
     \<Rightarrow> ('model \<Rightarrow> 'data \<Rightarrow> nat \<Rightarrow> ReferenceFrame \<Rightarrow> Matrix6x \<Rightarrow> 'data \<times> Matrix6x)
     \<Rightarrow> 'model \<Rightarrow> 'data \<Rightarrow> nat \<Rightarrow> ReferenceFrame \<Rightarrow> 'data \<times> Matrix6x" where
  "get_jacobian_proxy model_nv getJointJacobian model data jointId rf =
     (let J = Matrix6x_Zero (model_nv model)
      in getJointJacobian model data jointId rf J)"

section \<open>Notions used in the statements\<close>

text \<open>
  A model is well formed when its per-joint lists have one entry per joint and the
  universe is there.
\<close>

definition wf_model :: "Model \<Rightarrow> bool" where
  "wf_model m =
     (0 < length (joints m) \<and> length (parents m) = length (joints m)
      \<and> length (inertias m) = length (joints m) \<and> length (names m) = length (joints m))"

text \<open>Every joint but the universe has its parent before it.\<close>

definition parentsBefore :: "Model \<Rightarrow> bool" where
  "parentsBefore m = (\<forall>i \<in> {1 ..< length (parents m)}. parents m ! i < i)"

text \<open>
  The locals \<open>Y\<close> and \<open>jointPlacement\<close> of \<open>parseTree\<close>, as functions of the link, the
  joint and the placement offset.
\<close>

definition linkInertia :: "Link \<Rightarrow> Inertia" where
  "linkInertia link =
     (case inertial link of Some i \<Rightarrow> convertFromUrdf_Inertial i | None \<Rightarrow> Inertia_Identity)"

definition jointPlacementOf :: "SE3 \<Rightarrow> Joint \<Rightarrow> SE3" where
  "jointPlacementOf placementOffset joint =
     SE3_mult placementOffset (convertFromUrdf_Pose (parent_to_joint_origin_transform joint))"

text \<open>
  The emission of the joint of a link through \<open>addBody\<close> with the joint model \<open>j\<close>:
  the call every case of the switch but \<open>FIXED\<close> makes, with the limit vectors of
  the joint; the children then start from the identity.
\<close>

definition addBodyFor :: "JointModel \<Rightarrow> Joint \<Rightarrow> Link \<Rightarrow> nat \<Rightarrow> Model \<Rightarrow> SE3 \<Rightarrow> error + Model \<times> SE3" where
  "addBodyFor j joint link parent model placementOffset =
     map_sum id (\<lambda>m. (m, SE3_Identity))
       (case limitVectors (joint_limits joint) of
          (maxEffort, maxVelocity, lowerPosition, upperPosition) \<Rightarrow>
            addBody parent j (jointPlacementOf placementOffset joint) (linkInertia link)
              maxEffort maxVelocity lowerPosition upperPosition
              (joint_name joint) (link_name link) (visual link) model)"

text \<open>The total mass of a model, and the masses of the inertial blocks of a link tree.\<close>

definition totalMass :: "Model \<Rightarrow> real" where
  "totalMass m = sum_list (map inertia_mass (inertias m))"

definition ownMass :: "Link \<Rightarrow> real" where
  "ownMass link = (case inertial link of Some i \<Rightarrow> mass i | None \<Rightarrow> 0)"

fun treeMass :: "Link \<Rightarrow> real"
  and forestMass :: "Link list \<Rightarrow> real" where
  "treeMass (Link name inert vis joint children) =
     (case inert of Some i \<Rightarrow> mass i | None \<Rightarrow> 0) + forestMass children"
| "forestMass [] = 0"
| "forestMass (child # rest) = treeMass child + forestMass rest"

text \<open>
  The links of a tree, the root first; a link lacks the inertia its joint needs when it
  is attached by a joint that is not fixed and has no inertial block; a link has an
  unaligned prismatic joint when its joint is prismatic about an axis that is none of
  the three canonical ones.
\<close>

fun linksOf :: "Link \<Rightarrow> Link list"
  and linksOfList :: "Link list \<Rightarrow> Link list" where
  "linksOf (Link name inert vis joint children) =
     Link name inert vis joint children # linksOfList children"
| "linksOfList [] = []"
| "linksOfList (child # rest) = linksOf child @ linksOfList rest"

definition lacksInertia :: "Link \<Rightarrow> bool" where
  "lacksInertia link =
     (case parent_joint link of
        Some joint \<Rightarrow> joint_type joint \<noteq> FIXED \<and> inertial link = None
      | None \<Rightarrow> False)"

definition unalignedPrismatic :: "Link \<Rightarrow> bool" where
  "unalignedPrismatic link =
     (case parent_joint link of
        Some joint \<Rightarrow>
          joint_type joint = PRISMATIC \<and> extractCartesianAxis (axis joint) = AXIS_UNALIGNED
      | None \<Rightarrow> False)"













section \<open>Example inputs\<close>

text \<open>
  A pose with no rotation, an inertial block of a given mass at the origin of the link,
  and a joint with its origin one unit along x.
\<close>

definition examplePose :: "Vector3d \<Rightarrow> Pose" where
  "examplePose p =
     \<lparr>position = p, rotation = \<lparr>rot_x = 0, rot_y = 0, rot_z = 0, rot_w = 1\<rparr>\<rparr>"

definition exampleInertial :: "real \<Rightarrow> Inertial" where
  "exampleInertial k =
     \<lparr>origin = examplePose (0, 0, 0), mass = k,
      ixx = 1, ixy = 0, ixz = 0, iyy = 1, iyz = 0, izz = 1\<rparr>"

definition exampleJoint :: "string \<Rightarrow> JointType \<Rightarrow> Vector3d \<Rightarrow> JointLimits option \<Rightarrow> Joint" where
  "exampleJoint n t a l =
     \<lparr>joint_name = n, joint_type = t, axis = a,
      parent_to_joint_origin_transform = examplePose (1, 0, 0), joint_limits = l\<rparr>"

definition exampleLimits :: JointLimits where
  "exampleLimits = \<lparr>lower = - 3, upper = 3, effort = 10, velocity = 1\<rparr>"

text \<open>
  A robot with two consecutive fixed joints below the root, the second link without
  inertial block, then a revolute joint about z with limits and a prismatic joint
  along x without.
\<close>

definition exampleSlider :: Link where
  "exampleSlider =
     Link ''l2'' (Some (exampleInertial 4)) False
       (Some (exampleJoint ''j2'' PRISMATIC (1, 0, 0) None)) []"

definition exampleArm :: Link where
  "exampleArm =
     Link ''l1'' (Some (exampleInertial 1)) True
       (Some (exampleJoint ''j1'' REVOLUTE (0, 0, 1) (Some exampleLimits)))
       [exampleSlider]"

definition examplePlate :: Link where
  "examplePlate =
     Link ''plate'' None False (Some (exampleJoint ''jf2'' FIXED (0, 0, 0) None))
       [exampleArm]"

definition exampleMid :: Link where
  "exampleMid =
     Link ''mid'' (Some (exampleInertial 3)) True
       (Some (exampleJoint ''jf'' FIXED (0, 0, 0) None))
       [examplePlate]"

definition exampleRobot :: Link where
  "exampleRobot = Link ''base'' (Some (exampleInertial 2)) True None [exampleMid]"

text \<open>A root link with an inertial block and no children.\<close>

definition exampleRootOnly :: Link where
  "exampleRootOnly = Link ''base'' (Some (exampleInertial 2)) True None []"

text \<open>A root link without inertial block, above the arm.\<close>

definition exampleBareRoot :: Link where
  "exampleBareRoot = Link ''base'' None True None [exampleArm]"

text \<open>
  A link without inertial block attached by a revolute joint, alone below a root; then
  a prismatic joint along \<open>(1,1,0)\<close>: once with an inertial block on its child link
  and the link without inertial block below it, once with no inertial block on its
  child link.
\<close>

definition exampleNoInertia :: Link where
  "exampleNoInertia =
     Link ''tip'' None False (Some (exampleJoint ''j4'' REVOLUTE (0, 0, 1) None)) []"

definition exampleBareRootTip :: Link where
  "exampleBareRootTip = Link ''base'' None True None [exampleNoInertia]"

definition exampleSkewSlider :: Link where
  "exampleSkewSlider =
     Link ''skew'' (Some (exampleInertial 1)) False
       (Some (exampleJoint ''j3'' PRISMATIC (1, 1, 0) None)) [exampleNoInertia]"

definition exampleSkewRobot :: Link where
  "exampleSkewRobot = Link ''base'' None True None [exampleSkewSlider]"

definition exampleSkewSliderBare :: Link where
  "exampleSkewSliderBare =
     Link ''skew'' None False (Some (exampleJoint ''j3'' PRISMATIC (1, 1, 0) None)) []"

definition exampleSkewRobotBare :: Link where
  "exampleSkewRobotBare = Link ''base'' None True None [exampleSkewSliderBare]"

text \<open>A revolute joint about \<open>(1,1,0)\<close>.\<close>

definition exampleSkewHinge :: Link where
  "exampleSkewHinge =
     Link ''hinge'' (Some (exampleInertial 1)) False
       (Some (exampleJoint ''j5'' REVOLUTE (1, 1, 0) None)) []"

definition exampleHingeRobot :: Link where
  "exampleHingeRobot = Link ''base'' None True None [exampleSkewHinge]"

text \<open>
  A root link with two children, each attached by a revolute joint; the joint of the
  first child is named \<open>root_joint\<close>.
\<close>

definition exampleClashFirst :: Link where
  "exampleClashFirst =
     Link ''first'' (Some (exampleInertial 1)) False
       (Some (exampleJoint ''root_joint'' REVOLUTE (0, 0, 1) None)) []"

definition exampleClashSecond :: Link where
  "exampleClashSecond =
     Link ''second'' (Some (exampleInertial 1)) False
       (Some (exampleJoint ''j2'' REVOLUTE (0, 0, 1) None)) []"

definition exampleClashRobot :: Link where
  "exampleClashRobot = Link ''base'' None True None [exampleClashFirst, exampleClashSecond]"

text \<open>
  The transform with no rotation that shifts by \<open>d\<close> along x, and the models the
  traversal of \<open>exampleRobot\<close> holds after the visit of its first and of its second
  link attached by a fixed joint.
\<close>

definition exampleShift :: "real \<Rightarrow> SE3" where
  "exampleShift d = \<lparr>se3_rotation = mat_identity, se3_translation = (d, 0, 0)\<rparr>"

definition exampleModelMid :: Model where
  "exampleModelMid =
     addFixedBody 0 (exampleShift 1) ''mid'' True
       (mergeFixedBody 0 (exampleShift 1) (convertFromUrdf_Inertial (exampleInertial 3))
          Model_init)"

definition exampleModelPlate :: Model where
  "exampleModelPlate = addFixedBody 0 (exampleShift 2) ''plate'' False exampleModelMid"

section \<open>Properties of the builder and of the traversal\<close>

subsection \<open>The builder\<close>

lemma find_index_from_bound:
  "find_index_from i name ns = Some k \<Longrightarrow> i \<le> k \<and> k < i + length ns"
  by (induction ns arbitrary: i) (fastforce split: if_splits)+

lemma getJointId_bound: "getJointId m name = Inr k \<Longrightarrow> k < length (names m)"
  using find_index_from_bound [of 0 name "names m" k]
  by (auto simp: getJointId_def split: option.splits)

lemma parentIndex_bound:
  "wf_model m \<Longrightarrow> parentIndex P m = Inr p \<Longrightarrow> p < length (joints m)"
  by (auto simp: parentIndex_def wf_model_def split: option.splits if_splits dest: getJointId_bound)

lemma addBody_Inr:
  "addBody p j pl Y e v lo up jn bn vis m = Inr m' \<Longrightarrow>
     p < length (joints m) \<and>
     m' = m\<lparr>joints := joints m @ [j], parents := parents m @ [p],
             placements := placements m @ [pl], inertias := inertias m @ [Y],
             limits := limits m @ [(e, v, lo, up)], names := names m @ [jn],
             bodyNames := bodyNames m @ [bn], hasVisual := hasVisual m @ [vis],
             nq := nq m + joint_nq j, nv := nv m + joint_nv j\<rparr>"
  by (auto simp: addBody_def split: if_splits)

lemma addBody_Inl:
  "addBody p j pl Y ef v lo up jn bn vis m = Inl e \<Longrightarrow> \<exists>s. e = PreconditionViolation s"
  by (auto simp: addBody_def split: if_splits)

lemma addFixed_fields:
  "addFixed p joint link off jp Y vis m = (m', off') \<Longrightarrow>
     joints m' = joints m \<and> parents m' = parents m \<and> names m' = names m
     \<and> limits m' = limits m
     \<and> length (inertias m') = length (inertias m)
     \<and> off' = SE3_mult off (convertFromUrdf_Pose (parent_to_joint_origin_transform joint))"
  by (auto simp: addFixed_def Let_def addFixedBody_def mergeFixedBody_def split: if_splits)

lemma addFixed_placements:
  "addFixed p joint link off jp Y vis m = (m', off') \<Longrightarrow> placements m' = placements m"
  by (auto simp: addFixed_def Let_def addFixedBody_def mergeFixedBody_def split: if_splits)






lemma parentIndex_Inl:
  "parentIndex P m = Inl e \<Longrightarrow> \<exists>s. e = PreconditionViolation s"
  by (auto simp: parentIndex_def getJointId_def split: option.splits if_splits)

lemma parentIndex_names:
  "names m' = names m \<Longrightarrow> parentIndex P m' = parentIndex P m"
  by (simp add: parentIndex_def existJointName_def getJointId_def split: option.splits)

subsection \<open>One link\<close>

lemma map_sum_Inr_iff:
  "map_sum id (\<lambda>m. (m, c)) x = Inr (m', off') \<longleftrightarrow> x = Inr m' \<and> off' = c"
  by (cases x) auto

lemma map_sum_Inl_iff: "map_sum id f x = Inl e \<longleftrightarrow> x = Inl e"
  by (cases x) auto

lemma emitJoint_cases [consumes 1, case_names body fixed]:
  assumes "emitJoint joint link p m off = Inr (m', off')"
  obtains
    (body) j where "joint_type joint \<noteq> FIXED" "off' = SE3_Identity" "j \<noteq> JointModelFixed"
      "addBody p j (jointPlacementOf off joint) (linkInertia link)
         (fst (limitVectors (joint_limits joint)))
         (fst (snd (limitVectors (joint_limits joint))))
         (fst (snd (snd (limitVectors (joint_limits joint)))))
         (snd (snd (snd (limitVectors (joint_limits joint)))))
         (joint_name joint) (link_name link) (visual link) m = Inr m'"
  | (fixed) "joint_type joint = FIXED"
      "addFixed p joint link off (jointPlacementOf off joint) (linkInertia link) (visual link) m
         = (m', off')"
proof (cases "joint_type joint")
  case REVOLUTE
  with assms body show ?thesis
    by (auto simp: map_sum_Inr_iff emitJoint_def addRevolute_def Let_def linkInertia_def jointPlacementOf_def
          split: prod.splits AxisCartesian.splits)
next
  case CONTINUOUS
  with assms body show ?thesis
    by (auto simp: map_sum_Inr_iff emitJoint_def addRevolute_def Let_def linkInertia_def jointPlacementOf_def
          split: prod.splits AxisCartesian.splits)
next
  case PRISMATIC
  with assms body show ?thesis
    by (auto simp: map_sum_Inr_iff emitJoint_def addPrismatic_def Let_def linkInertia_def jointPlacementOf_def
          split: prod.splits AxisCartesian.splits)
next
  case FIXED
  with assms fixed show ?thesis
    by (auto simp: emitJoint_def Let_def linkInertia_def jointPlacementOf_def)
qed (use assms in \<open>auto simp: emitJoint_def Let_def\<close>)

lemma visitLink_cases [consumes 1, case_names root joint]:
  assumes "visitLink link par m off = Inr (m', off')"
  obtains
    (root) "parent_joint link = None" "par = None" "m' = m" "off' = SE3_Identity"
  | (joint) joint P p where "parent_joint link = Some joint" "par = Some P"
      "inertial link \<noteq> None \<or> joint_type joint = FIXED"
      "parentIndex P m = Inr p" "emitJoint joint link p m off = Inr (m', off')"
  using assms
  by (auto simp: visitLink_def split: option.splits if_splits sum.splits)

lemma parseTree_unfold:
  "parseTree link par model off =
     (case visitLink link par model off of
        Inl e \<Rightarrow> Inl e
      | Inr (model', next) \<Rightarrow> parseChildren (child_links link) (childParent link par) model' next)"
proof (cases link)
  case (Link name inert vis joint children)
  show ?thesis unfolding Link by (simp split: sum.splits)
qed

lemma parseTree_root_cases [consumes 1, case_names root]:
  assumes "parseTree_root link m off rj = Inr m'"
  obtains m1 where
    "addBody 0 rj off (linkInertia link) [] [] [] [] ''root_joint'' (link_name link) True m = Inr m1"
    "parseChildren (child_links link) (Some link) m1 SE3_Identity = Inr m'"
  using assms
  by (auto simp: parseTree_root_def addBody_nolimits_def Let_def linkInertia_def
        split: sum.splits)

lemma parseTree_root_Inl:
  assumes "parseTree_root link m off rj = Inl (InvalidArgument s)"
  shows "parseChildren (child_links link) (Some link)
           (projr (addBody 0 rj off (linkInertia link) [] [] [] [] ''root_joint''
                     (link_name link) True m)) SE3_Identity = Inl (InvalidArgument s)"
  using assms
  by (auto simp: parseTree_root_def addBody_nolimits_def Let_def linkInertia_def
        split: sum.splits dest!: addBody_Inl)

lemma parseTree_root_bare:
  assumes "inertial rootLink = None" and "0 < length (joints model)"
  shows "\<exists>m1. addBody_nolimits 0 root_joint placementOffset Inertia_Identity ''root_joint''
                (link_name rootLink) True model = Inr m1
            \<and> joints m1 = joints model @ [root_joint]
            \<and> inertias m1 = inertias model @ [Inertia_Identity]
            \<and> parseTree_root rootLink model placementOffset root_joint
                = parseChildren (child_links rootLink) (Some rootLink) m1 SE3_Identity"
  using assms
  by (simp add: parseTree_root_def addBody_nolimits_def addBody_def)

subsection \<open>Invariants of the traversal\<close>

lemma emitJoint_wf:
  assumes "emitJoint joint link p m off = Inr (m', off')" and "wf_model m"
  shows "wf_model m'"
  using assms
  by (cases rule: emitJoint_cases)
     (auto simp: wf_model_def dest!: addBody_Inr addFixed_fields)

lemma visitLink_wf:
  assumes "wf_model m" and "visitLink link par m off = Inr (m', off')"
  shows "wf_model m'"
  using assms(2,1) by (cases rule: visitLink_cases) (auto dest: emitJoint_wf)

lemma parseTree_invariant:
  assumes step: "\<And>link par m off m' off'.
      Q m \<Longrightarrow> visitLink link par m off = Inr (m', off') \<Longrightarrow> Q m'"
  shows "Q m \<Longrightarrow> parseTree l par m off = Inr m' \<Longrightarrow> Q m'"
    and "Q m \<Longrightarrow> parseChildren ls par m off = Inr m' \<Longrightarrow> Q m'"
proof (induction l par m off and ls par m off arbitrary: m' and m'
       rule: parseTree_parseChildren.induct)
  case (1 name inert vis joint children getParent model placementOffset)
  then show ?case
    by (auto split: sum.splits prod.splits dest: step)
next
  case (2 getParent model placementOffset)
  then show ?case by simp
next
  case (3 child rest getParent model placementOffset)
  then show ?case
    by (auto split: sum.splits)
qed

lemma parseTree_wf:
  "wf_model m \<Longrightarrow> parseTree l par m off = Inr m' \<Longrightarrow> wf_model m'"
  by (rule parseTree_invariant(1) [where Q = wf_model]) (rule visitLink_wf)

lemma emitJoint_parentsBefore:
  assumes "emitJoint joint link p m off = Inr (m', off')"
    and "wf_model m" and "parentsBefore m"
  shows "parentsBefore m'"
  using assms
  by (cases rule: emitJoint_cases)
     (auto simp: wf_model_def parentsBefore_def nth_append dest!: addBody_Inr addFixed_fields)

lemma visitLink_parentsBefore:
  assumes "wf_model m \<and> parentsBefore m" and "visitLink link par m off = Inr (m', off')"
  shows "wf_model m' \<and> parentsBefore m'"
  using assms(2,1)
  by (cases rule: visitLink_cases) (auto dest: emitJoint_wf emitJoint_parentsBefore)

lemma parseTree_parentsBefore:
  "wf_model m \<and> parentsBefore m \<Longrightarrow> parseTree l par m off = Inr m'
     \<Longrightarrow> wf_model m' \<and> parentsBefore m'"
  by (rule parseTree_invariant(1) [where Q = "\<lambda>m. wf_model m \<and> parentsBefore m"])
     (rule visitLink_parentsBefore)

lemma parseChildren_parentsBefore:
  "wf_model m \<and> parentsBefore m \<Longrightarrow> parseChildren ls par m off = Inr m'
     \<Longrightarrow> wf_model m' \<and> parentsBefore m'"
  by (rule parseTree_invariant(2) [where Q = "\<lambda>m. wf_model m \<and> parentsBefore m"])
     (rule visitLink_parentsBefore)

lemma wf_Model_init: "wf_model Model_init"
  by (simp add: wf_model_def Model_init_def)

lemma parentsBefore_Model_init: "parentsBefore Model_init"
  by (simp add: parentsBefore_def Model_init_def)

lemma addBody_parentsBefore:
  assumes "addBody p j pl Y e v lo up jn bn vis m = Inr m'"
    and "wf_model m \<and> parentsBefore m"
  shows "wf_model m' \<and> parentsBefore m'"
  using assms
  by (auto simp: wf_model_def parentsBefore_def nth_append dest!: addBody_Inr)

subsection \<open>The lookups of the traversal succeed\<close>










subsection \<open>Parent resolution\<close>















subsection \<open>Fixed joints\<close>

lemma visitLink_fixed:
  assumes "parent_joint link = Some joint" and "joint_type joint = FIXED"
    and "parentIndex parentLink model = Inr p"
  shows "visitLink link (Some parentLink) model off =
           Inr (addFixedBody p (jointPlacementOf off joint) (link_name link) (visual link)
                  (if inertial link \<noteq> None
                   then mergeFixedBody p (jointPlacementOf off joint) (linkInertia link) model
                   else model),
                jointPlacementOf off joint)"
  using assms
  by (simp add: visitLink_def emitJoint_def addFixed_def Let_def jointPlacementOf_def
        linkInertia_def)

lemma visitLink_not_fixed:
  assumes "visitLink link par model off = Inr (m', off')"
    and "parent_joint link = Some joint" and "joint_type joint \<noteq> FIXED"
  shows "off' = SE3_Identity \<and> (\<exists>j. j \<noteq> JointModelFixed \<and> joints m' = joints model @ [j])"
  using assms
proof (cases rule: visitLink_cases)
  case root
  with assms show ?thesis by simp
next
  case (joint joint' P p)
  from joint(5) show ?thesis
  proof (cases rule: emitJoint_cases)
    case (body j)
    then show ?thesis by (auto dest!: addBody_Inr)
  next
    case fixed
    with joint(1) assms(2,3) show ?thesis by simp
  qed
qed

lemma visitLink_no_fixed_joint:
  assumes "JointModelFixed \<notin> set (joints m)" and "visitLink link par m off = Inr (m', off')"
  shows "JointModelFixed \<notin> set (joints m')"
  using assms(2)
proof (cases rule: visitLink_cases)
  case root
  with assms show ?thesis by simp
next
  case (joint joint' P p)
  from joint(5) show ?thesis
  proof (cases rule: emitJoint_cases)
    case (body j)
    with assms(1) show ?thesis by (auto dest!: addBody_Inr)
  next
    case fixed
    with assms(1) show ?thesis by (auto dest!: addFixed_fields)
  qed
qed

lemma parseTree_no_fixed_joint:
  "JointModelFixed \<notin> set (joints m) \<Longrightarrow> parseTree l par m off = Inr m'
     \<Longrightarrow> JointModelFixed \<notin> set (joints m')"
  by (rule parseTree_invariant(1) [where Q = "\<lambda>m. JointModelFixed \<notin> set (joints m)"])
     (rule visitLink_no_fixed_joint)

lemma visitLink_extends:
  assumes "visitLink link par m off = Inr (m', off')"
  shows "\<exists>a b c d. joints m' = joints m @ a \<and> parents m' = parents m @ b
           \<and> placements m' = placements m @ c \<and> names m' = names m @ d"
  using assms
proof (cases rule: visitLink_cases)
  case root
  then show ?thesis by simp
next
  case (joint joint P p)
  from joint(5) show ?thesis
  proof (cases rule: emitJoint_cases)
    case (body j)
    from addBody_Inr [OF body(4)] show ?thesis by simp
  next
    case fixed
    from addFixed_fields [OF fixed(2)] addFixed_placements [OF fixed(2)] show ?thesis by simp
  qed
qed

lemma visitLink_extends_step:
  assumes "\<exists>a b c d. joints m = joints m0 @ a \<and> parents m = parents m0 @ b
           \<and> placements m = placements m0 @ c \<and> names m = names m0 @ d"
    and "visitLink link par m off = Inr (m', off')"
  shows "\<exists>a b c d. joints m' = joints m0 @ a \<and> parents m' = parents m0 @ b
           \<and> placements m' = placements m0 @ c \<and> names m' = names m0 @ d"
  using assms(1) visitLink_extends [OF assms(2)] by auto

lemma parseChildren_extends:
  assumes "parseChildren ls par m off = Inr m'"
  shows "\<exists>a b c d. joints m' = joints m @ a \<and> parents m' = parents m @ b
           \<and> placements m' = placements m @ c \<and> names m' = names m @ d"
proof -
  have "\<exists>a b c d. joints m = joints m @ a \<and> parents m = parents m @ b
           \<and> placements m = placements m @ c \<and> names m = names m @ d"
    by simp
  from this assms show ?thesis
    by (rule parseTree_invariant(2)
               [where Q = "\<lambda>x. \<exists>a b c d. joints x = joints m @ a \<and> parents x = parents m @ b
                            \<and> placements x = placements m @ c \<and> names x = names m @ d",
                rotated 1])
       (rule visitLink_extends_step)
qed

lemma visitLink_body:
  assumes "visitLink link (Some P) m off = Inr (m', off')"
    and "parent_joint link = Some joint" and "joint_type joint \<noteq> FIXED"
  shows "\<exists>p j. parentIndex P m = Inr p \<and> joints m' = joints m @ [j]
           \<and> parents m' = parents m @ [p]
           \<and> placements m' = placements m @ [jointPlacementOf off joint]
           \<and> names m' = names m @ [joint_name joint] \<and> off' = SE3_Identity"
  using assms(1)
proof (cases rule: visitLink_cases)
  case root
  with assms(2) show ?thesis by simp
next
  case (joint joint' P' p)
  with assms(2) have j: "joint' = joint" "P' = P" by simp_all
  from joint(5) show ?thesis unfolding j
  proof (cases rule: emitJoint_cases)
    case (body jm)
    from addBody_Inr [OF body(4)] joint(4) j body(2) show ?thesis by simp
  next
    case fixed
    with assms(3) show ?thesis by simp
  qed
qed

lemma parseChildren_first:
  assumes "parseChildren (child # rest) (Some P) m off = Inr m'"
    and "parent_joint child = Some jc" and "joint_type jc \<noteq> FIXED"
  shows "\<exists>p j a b c d. parentIndex P m = Inr p
           \<and> joints m' = joints m @ j # a
           \<and> parents m' = parents m @ p # b
           \<and> placements m' = placements m @ jointPlacementOf off jc # c
           \<and> names m' = names m @ joint_name jc # d"
proof -
  from assms(1) obtain m2 where
    t: "parseTree child (Some P) m off = Inr m2" and
    r: "parseChildren rest (Some P) m2 off = Inr m'"
    by (auto split: sum.splits)
  from t obtain m1 off1 where
    v: "visitLink child (Some P) m off = Inr (m1, off1)" and
    c: "parseChildren (child_links child) (childParent child (Some P)) m1 off1 = Inr m2"
    by (auto simp: parseTree_unfold [of child] split: sum.splits)
  from visitLink_body [OF v assms(2,3)] obtain p j where
    b: "parentIndex P m = Inr p" "joints m1 = joints m @ [j]" "parents m1 = parents m @ [p]"
       "placements m1 = placements m @ [jointPlacementOf off jc]"
       "names m1 = names m @ [joint_name jc]"
    by blast
  from parseChildren_extends [OF c] parseChildren_extends [OF r] b show ?thesis
    by auto
qed

lemma fixed_link_first_child:
  assumes "parent_joint link = Some joint \<and> joint_type joint = FIXED
        \<and> parentIndex parentLink model = Inr p
        \<and> child_links link = child # rest
        \<and> parent_joint child = Some jc \<and> joint_type jc \<noteq> FIXED
        \<and> parseTree link (Some parentLink) model placementOffset = Inr m3"
  shows "names m3 ! length (names model) = joint_name jc
        \<and> parents m3 ! length (parents model) = p
        \<and> placements m3 ! length (placements model)
            = jointPlacementOf (jointPlacementOf placementOffset joint) jc
        \<and> length (joints model) < length (joints m3)"
proof -
  let ?m2 = "addFixedBody p (jointPlacementOf placementOffset joint) (link_name link) (visual link)
               (if inertial link \<noteq> None
                then mergeFixedBody p (jointPlacementOf placementOffset joint) (linkInertia link) model
                else model)"
  from assms have v: "visitLink link (Some parentLink) model placementOffset
                        = Inr (?m2, jointPlacementOf placementOffset joint)"
    using visitLink_fixed by blast
  from assms have c: "childParent link (Some parentLink) = Some parentLink"
    by (simp add: childParent_def)
  have f: "joints ?m2 = joints model" "parents ?m2 = parents model"
    "placements ?m2 = placements model" "names ?m2 = names model"
    by (simp_all add: addFixedBody_def mergeFixedBody_def)
  have u: "parseTree link (Some parentLink) model placementOffset
             = parseChildren (child_links link) (childParent link (Some parentLink)) ?m2
                 (jointPlacementOf placementOffset joint)"
    by (simp only: parseTree_unfold [of link] v sum.case prod.case)
  from assms have pt: "parseTree link (Some parentLink) model placementOffset = Inr m3"
    and cl: "child_links link = child # rest"
    by simp_all
  from u [unfolded pt cl c] have
    r: "parseChildren (child # rest) (Some parentLink) ?m2 (jointPlacementOf placementOffset joint)
          = Inr m3"
    by (rule sym)
  from assms have jc: "parent_joint child = Some jc" "joint_type jc \<noteq> FIXED" by simp_all
  from parseChildren_first [OF r jc] obtain q j a b c d where
    e: "parentIndex parentLink ?m2 = Inr q" "joints m3 = joints ?m2 @ j # a"
       "parents m3 = parents ?m2 @ q # b"
       "placements m3 = placements ?m2 @ jointPlacementOf (jointPlacementOf placementOffset joint) jc # c"
       "names m3 = names ?m2 @ joint_name jc # d"
    by blast
  from e(1) parentIndex_names [OF f(4), of parentLink] assms have "q = p" by simp
  with e f show ?thesis by (simp only: nth_append_length length_append list.size) simp
qed

lemma moving_link_first_child:
  assumes "parent_joint linkB = Some jointB \<and> joint_type jointB \<noteq> FIXED
        \<and> child_links linkB = child # rest
        \<and> parent_joint child = Some jc \<and> joint_type jc \<noteq> FIXED
        \<and> parseTree linkB (Some parentLink) modelB placementOffsetB = Inr m4"
  shows "names m4 ! length (names modelB) = joint_name jointB
        \<and> placements m4 ! length (placements modelB)
            = jointPlacementOf placementOffsetB jointB
        \<and> names m4 ! Suc (length (names modelB)) = joint_name jc
        \<and> placements m4 ! Suc (length (placements modelB))
            = jointPlacementOf SE3_Identity jc"
proof -
  from assms obtain m1 off1 where
    v: "visitLink linkB (Some parentLink) modelB placementOffsetB = Inr (m1, off1)" and
    r0: "parseChildren (child_links linkB) (childParent linkB (Some parentLink)) m1 off1 = Inr m4"
    by (auto simp: parseTree_unfold [of linkB] split: sum.splits)
  from assms have jb: "parent_joint linkB = Some jointB" "joint_type jointB \<noteq> FIXED"
    and jc: "parent_joint child = Some jc" "joint_type jc \<noteq> FIXED"
    by simp_all
  from visitLink_body [OF v jb] have
    b: "placements m1 = placements modelB @ [jointPlacementOf placementOffsetB jointB]"
       "names m1 = names modelB @ [joint_name jointB]" "off1 = SE3_Identity"
    by auto
  from r0 assms jb b(3) have
    r: "parseChildren (child # rest) (Some linkB) m1 SE3_Identity = Inr m4"
    by (simp add: childParent_def)
  from parseChildren_first [OF r jc] obtain c d where
    e: "placements m4 = placements m1 @ jointPlacementOf SE3_Identity jc # c"
       "names m4 = names m1 @ joint_name jc # d"
    by blast
  from e b show ?thesis by (simp add: nth_append)
qed

subsection \<open>Mass\<close>

lemma sum_list_map_update:
  fixes f :: "'a \<Rightarrow> real"
  shows "i < length xs \<Longrightarrow>
    sum_list (map f (xs[i := y])) = sum_list (map f xs) - f (xs ! i) + f y"
  by (induction xs arbitrary: i) (auto split: nat.splits)

lemma totalMass_mergeFixedBody:
  "p < length (inertias m) \<Longrightarrow>
     totalMass (mergeFixedBody p pl Y m) = totalMass m + inertia_mass Y"
  by (simp add: totalMass_def mergeFixedBody_def sum_list_map_update Inertia_add_def Let_def
        se3_act_def)

lemma totalMass_addFixedBody: "totalMass (addFixedBody p pl n v m) = totalMass m"
  by (simp add: totalMass_def addFixedBody_def)

lemma totalMass_addBody:
  "addBody p j pl Y e v lo up jn bn vis m = Inr m' \<Longrightarrow>
     totalMass m' = totalMass m + inertia_mass Y"
  by (auto simp: totalMass_def dest!: addBody_Inr)

lemma mass_convertFromUrdf_Inertial: "inertia_mass (convertFromUrdf_Inertial i) = mass i"
  by (simp add: convertFromUrdf_Inertial_def Let_def)

lemma mass_linkInertia: "inertia_mass (linkInertia link) = ownMass link"
  by (simp add: linkInertia_def ownMass_def mass_convertFromUrdf_Inertial Inertia_Identity_def
        split: option.splits)

lemma emitJoint_mass:
  assumes "emitJoint joint link p m off = Inr (m', off')"
    and "p < length (inertias m)"
  shows "totalMass m' = totalMass m + ownMass link"
  using assms(1)
proof (cases rule: emitJoint_cases)
  case (body j)
  from totalMass_addBody [OF body(4)] show ?thesis by (simp add: mass_linkInertia)
next
  case fixed
  from fixed(2) assms(2) show ?thesis
    by (auto simp: addFixed_def Let_def totalMass_addFixedBody totalMass_mergeFixedBody
          mass_linkInertia ownMass_def)
qed

lemma visitLink_mass:
  assumes "visitLink link par m off = Inr (m', off')" and "wf_model m"
  shows "totalMass m' = totalMass m + (if parent_joint link = None then 0 else ownMass link)"
  using assms(1)
proof (cases rule: visitLink_cases)
  case root
  then show ?thesis by simp
next
  case (joint joint P p)
  have "p < length (inertias m)"
    using parentIndex_bound [OF assms(2) joint(4)] assms(2) by (simp add: wf_model_def)
  from emitJoint_mass [OF joint(5) this] joint(1) show ?thesis by simp
qed

lemma visitLink_par:
  assumes "visitLink link par m off = Inr (m', off')"
  shows "(par = None) = (parent_joint link = None)"
  using assms by (cases rule: visitLink_cases) auto

lemma childParent_Some:
  assumes "visitLink link par m off = Inr (m', off')"
  shows "childParent link par \<noteq> None"
  using assms by (cases rule: visitLink_cases) (auto simp: childParent_def)

lemma treeMass_eq: "treeMass l = ownMass l + forestMass (child_links l)"
  by (cases l) (simp add: ownMass_def)

lemma parseTree_mass:
  "wf_model m \<Longrightarrow> parseTree l par m off = Inr m' \<Longrightarrow>
     totalMass m' = totalMass m + (if par = None then forestMass (child_links l) else treeMass l)"
  "wf_model m \<Longrightarrow> par \<noteq> None \<Longrightarrow> parseChildren ls par m off = Inr m' \<Longrightarrow>
     totalMass m' = totalMass m + forestMass ls"
proof (induction l par m off and ls par m off arbitrary: m' and m'
       rule: parseTree_parseChildren.induct)
  case (1 name inert vis joint children getParent model placementOffset)
  let ?l = "Link name inert vis joint children"
  from "1.prems"(2) obtain m1 off1 where
    v: "visitLink ?l getParent model placementOffset = Inr (m1, off1)" and
    c: "parseChildren children (childParent ?l getParent) m1 off1 = Inr m'"
    by (auto split: sum.splits prod.splits)
  have wf1: "wf_model m1" using visitLink_wf [OF "1.prems"(1) v] .
  have "totalMass m' = totalMass m1 + forestMass children"
    using "1.IH" [OF v refl wf1 childParent_Some [OF v] c] .
  moreover have "totalMass m1 = totalMass model + (if joint = None then 0 else ownMass ?l)"
    using visitLink_mass [OF v "1.prems"(1)] by simp
  moreover have "(getParent = None) = (joint = None)"
    using visitLink_par [OF v] by simp
  ultimately show ?case by (simp add: ownMass_def)
next
  case (2 getParent model placementOffset)
  then show ?case by simp
next
  case (3 child rest getParent model placementOffset)
  from "3.prems"(3) obtain m1 where
    t: "parseTree child getParent model placementOffset = Inr m1" and
    r: "parseChildren rest getParent m1 placementOffset = Inr m'"
    by (auto split: sum.splits)
  have wf1: "wf_model m1" using parseTree_wf [OF "3.prems"(1) t] .
  from "3.IH"(1) [OF "3.prems"(1) t] "3.IH"(2) [OF t wf1 "3.prems"(2) r] "3.prems"(2)
  show ?case by simp
qed

lemma totalMass_Model_init: "totalMass Model_init = 0"
  by (simp add: totalMass_def Model_init_def Inertia_Zero_def)

subsection \<open>Errors\<close>

lemma messages_differ:
  "n @ '' - joint information missing.'' \<noteq> n' @ '' - spatial inertia information missing.''"
proof
  assume "n @ '' - joint information missing.'' = n' @ '' - spatial inertia information missing.''"
  then have "rev (n @ '' - joint information missing.'') ! 21
           = rev (n' @ '' - spatial inertia information missing.'') ! 21"
    by simp
  then show False by simp
qed

lemma emitJoint_Inl:
  "emitJoint joint link p m off = Inl e \<Longrightarrow> \<forall>s. e \<noteq> InvalidArgument s"
  by (cases "joint_type joint")
     (auto simp: emitJoint_def Let_def map_sum_Inl_iff addRevolute_def addPrismatic_def
        split: prod.splits AxisCartesian.splits dest!: addBody_Inl)

lemma visitLink_lacksInertia:
  "visitLink link (Some parentLink) m off
     = Inl (InvalidArgument (link_name link @ '' - spatial inertia information missing.''))
   \<longleftrightarrow> lacksInertia link"
  by (auto simp: visitLink_def lacksInertia_def messages_differ
        split: option.splits sum.splits dest!: parentIndex_Inl emitJoint_Inl)

lemma visitLink_MissingInertia:
  assumes "visitLink link par m off
     = Inl (InvalidArgument (n @ '' - spatial inertia information missing.''))"
  shows "link_name link = n \<and> lacksInertia link"
  using assms
  by (auto simp: visitLink_def lacksInertia_def messages_differ
        split: option.splits sum.splits if_splits dest!: parentIndex_Inl emitJoint_Inl)

lemma linksOf_self: "l \<in> set (linksOf l)"
  by (cases l) simp

lemma parseTree_MissingInertia:
  "parseTree l par m off = Inl (InvalidArgument (n @ '' - spatial inertia information missing.''))
     \<Longrightarrow> \<exists>L\<in>set (linksOf l). link_name L = n \<and> lacksInertia L"
  "parseChildren ls par m off = Inl (InvalidArgument (n @ '' - spatial inertia information missing.''))
     \<Longrightarrow> \<exists>L\<in>set (linksOfList ls). link_name L = n \<and> lacksInertia L"
proof (induction l par m off and ls par m off
       rule: parseTree_parseChildren.induct)
  case (1 name inert vis joint children getParent model placementOffset)
  let ?l = "Link name inert vis joint children"
  show ?case
  proof (cases "visitLink ?l getParent model placementOffset")
    case (Inl e)
    with "1.prems" have "visitLink ?l getParent model placementOffset
      = Inl (InvalidArgument (n @ '' - spatial inertia information missing.''))" by simp
    from visitLink_MissingInertia [OF this] show ?thesis by auto
  next
    case (Inr r)
    obtain m1 off1 where r: "r = (m1, off1)" by (cases r)
    from "1.IH" [OF Inr r [symmetric]] "1.prems" Inr r show ?thesis by auto
  qed
next
  case (2 getParent model placementOffset)
  then show ?case by simp
next
  case (3 child rest getParent model placementOffset)
  then show ?case by (auto split: sum.splits)
qed

lemma parseTree_all_links:
  assumes step: "\<And>link par m off r. visitLink link par m off = Inr r \<Longrightarrow> Q link"
  shows "parseTree l par m off = Inr m' \<Longrightarrow> \<forall>L\<in>set (linksOf l). Q L"
    and "parseChildren ls par m off = Inr m' \<Longrightarrow> \<forall>L\<in>set (linksOfList ls). Q L"
proof (induction l par m off and ls par m off arbitrary: m' and m'
       rule: parseTree_parseChildren.induct)
  case (1 name inert vis joint children getParent model placementOffset)
  then show ?case by (auto split: sum.splits prod.splits dest: step)
next
  case (2 getParent model placementOffset)
  then show ?case by simp
next
  case (3 child rest getParent model placementOffset)
  then show ?case by (auto split: sum.splits)
qed

lemma visitLink_has_inertia:
  "visitLink link par m off = Inr r \<Longrightarrow> \<not> lacksInertia link"
  by (auto simp: visitLink_def lacksInertia_def split: option.splits if_splits)

lemma visitLink_aligned:
  "visitLink link par m off = Inr r \<Longrightarrow> \<not> unalignedPrismatic link"
  by (auto simp: visitLink_def unalignedPrismatic_def emitJoint_def addPrismatic_def Let_def
        split: option.splits if_splits sum.splits prod.splits)

lemma parseTree_no_lacksInertia:
  "parseTree l par m off = Inr m' \<Longrightarrow> \<forall>L\<in>set (linksOf l). \<not> lacksInertia L"
  "parseChildren ls par m off = Inr m' \<Longrightarrow> \<forall>L\<in>set (linksOfList ls). \<not> lacksInertia L"
  by (rule parseTree_all_links [where Q = "\<lambda>L. \<not> lacksInertia L"],
      erule visitLink_has_inertia, assumption)+

lemma parseTree_no_unalignedPrismatic:
  "parseTree l par m off = Inr m' \<Longrightarrow> \<forall>L\<in>set (linksOf l). \<not> unalignedPrismatic L"
  "parseChildren ls par m off = Inr m' \<Longrightarrow> \<forall>L\<in>set (linksOfList ls). \<not> unalignedPrismatic L"
  by (rule parseTree_all_links [where Q = "\<lambda>L. \<not> unalignedPrismatic L"],
      erule visitLink_aligned, assumption)+

subsection \<open>Axes\<close>

lemma vec_normalize_110: "vec_normalize (1, 1, 0) = (sqrt (1 / 2), sqrt (1 / 2), 0)"
  by (simp add: vec_normalize_def vec_norm_def vec_dot_def real_sqrt_divide)

lemma vec_normalize_explicit:
  "vec_normalize (x, y, z)
     = (x / sqrt (x * x + y * y + z * z),
        y / sqrt (x * x + y * y + z * z),
        z / sqrt (x * x + y * y + z * z))"
  by (simp add: vec_normalize_def vec_norm_def vec_dot_def)

lemma vec_norm_normalize:
  assumes "v \<noteq> (0, 0, 0)"
  shows "vec_norm (vec_normalize v) = 1"
proof -
  obtain a b c where v: "v = (a, b, c)" by (cases v)
  let ?s = "a * a + b * b + c * c"
  from assms v have "a \<noteq> 0 \<or> b \<noteq> 0 \<or> c \<noteq> 0" by simp
  then have pos: "0 < ?s"
    by (metis add_pos_nonneg add_nonneg_pos not_real_square_gt_zero zero_le_square add_nonneg_nonneg)
  let ?n = "vec_norm v"
  have nn: "?n * ?n = ?s" using pos by (simp add: v vec_norm_def vec_dot_def)
  have "vec_dot (vec_normalize v) (vec_normalize v)
          = (a / ?n) * (a / ?n) + (b / ?n) * (b / ?n) + (c / ?n) * (c / ?n)"
    by (simp add: v vec_normalize_def vec_dot_def)
  also have "\<dots> = (a * a + b * b + c * c) / (?n * ?n)"
    by (simp only: times_divide_times_eq add_divide_distrib)
  also have "\<dots> = 1" using nn pos by simp
  finally show ?thesis by (simp add: vec_norm_def)
qed

subsection \<open>Limits\<close>


subsection \<open>The examples, compiled\<close>

lemmas example_defs =
  exampleRobot_def exampleMid_def examplePlate_def exampleArm_def exampleSlider_def
  exampleRootOnly_def exampleBareRoot_def exampleNoInertia_def exampleSkewSlider_def
  exampleSkewRobot_def exampleSkewSliderBare_def exampleSkewRobotBare_def exampleSkewHinge_def
  exampleHingeRobot_def exampleBareRootTip_def
  exampleClashFirst_def exampleClashSecond_def exampleClashRobot_def
  exampleJoint_def exampleInertial_def examplePose_def
  exampleLimits_def

lemmas compiler_defs =
  visitLink_def emitJoint_def childParent_def parentIndex_def addFixed_def addRevolute_def
  addPrismatic_def existJointName_def getJointId_def addBody_def addBody_nolimits_def
  addFixedBody_def mergeFixedBody_def limitVectors_def extractCartesianAxis_def Let_def

lemma exampleRobot_fixed_root:
  "\<exists>m. buildModel (\<lambda>_. Some exampleRobot) ''robot.urdf'' = Inr m
       \<and> joints m = [JointModelUniverse, JointModelRZ, JointModelPX]
       \<and> parents m = [0, 0, 1]
       \<and> names m = [''universe'', ''j1'', ''j2'']"
  by (simp add: buildModel_def example_defs compiler_defs Model_init_def)

lemma exampleRobot_explicit_root:
  "\<exists>m. buildModel_root (\<lambda>_. Some exampleRobot) ''robot.urdf'' JointModelFreeFlyer = Inr m
       \<and> joints m = [JointModelUniverse, JointModelFreeFlyer, JointModelRZ, JointModelPX]
       \<and> parents m = [0, 0, 1, 2]
       \<and> names m = [''universe'', ''root_joint'', ''j1'', ''j2'']"
  by (simp add: buildModel_root_def parseTree_root_def example_defs compiler_defs Model_init_def)

lemma exampleRobot_treeMass: "treeMass exampleRobot = 10"
  by (simp add: example_defs)

lemma exampleArm_visit:
  "\<exists>m1. visitLink exampleArm (Some exampleRobot) Model_init SE3_Identity
           = Inr (m1, SE3_Identity) \<and> names m1 = [''universe'', ''j1'']"
  by (simp add: example_defs compiler_defs Model_init_def)


lemma exampleSkewRobotBare_fixed_root:
  "buildModel (\<lambda>_. Some exampleSkewRobotBare) ''robot.urdf''
     = Inl (InvalidArgument ''skew - spatial inertia information missing.'')"
  by (simp add: buildModel_def example_defs visitLink_def childParent_def)

lemma exampleSkewRobotBare_explicit_root:
  "buildModel_root (\<lambda>_. Some exampleSkewRobotBare) ''robot.urdf'' JointModelFreeFlyer
     = Inl (InvalidArgument ''skew - spatial inertia information missing.'')"
  by (simp add: buildModel_root_def parseTree_root_def example_defs visitLink_def
        addBody_nolimits_def addBody_def Model_init_def)

lemma exampleSkewRobot_fixed_root:
  "buildModel (\<lambda>_. Some exampleSkewRobot) ''robot.urdf''
     = Inl (AssertionFailed ''Only X, Y or Z axis are accepted.'')"
  by (simp add: buildModel_def example_defs compiler_defs Model_init_def)

lemma exampleHingeRobot_fixed_root:
  "\<exists>m. buildModel (\<lambda>_. Some exampleHingeRobot) ''robot.urdf'' = Inr m
       \<and> joints m = [JointModelUniverse, JointModelRevoluteUnaligned (vec_normalize (1, 1, 0))]"
  by (simp add: buildModel_def example_defs compiler_defs Model_init_def)

lemma exampleBareRoot_explicit_root:
  "\<exists>m. buildModel_root (\<lambda>_. Some exampleBareRoot) ''robot.urdf'' JointModelFreeFlyer = Inr m
       \<and> joints m = [JointModelUniverse, JointModelFreeFlyer, JointModelRZ, JointModelPX]
       \<and> inertias m ! 1 = Inertia_Identity"
  by (simp add: buildModel_root_def parseTree_root_def example_defs compiler_defs Model_init_def)

lemma exampleBareRootTip_explicit_root:
  "buildModel_root (\<lambda>_. Some exampleBareRootTip) ''robot.urdf'' JointModelFreeFlyer
     = Inl (InvalidArgument ''tip - spatial inertia information missing.'')"
  by (simp add: buildModel_root_def parseTree_root_def exampleBareRootTip_def example_defs
        visitLink_def addBody_nolimits_def addBody_def Model_init_def)

lemmas spatial_defs =
  jointPlacementOf_def SE3_mult_def SE3_Identity_def convertFromUrdf_Pose_def
  mat_mul_def mat_identity_def mat_transpose_def vec_dot_def mat_vec_def vec_add_def
  quaternion_matrix_def exampleShift_def

lemma exampleRobot_stages:
  "\<exists>m. buildModel (\<lambda>_. Some exampleRobot) ''robot.urdf'' = Inr m
       \<and> parseTree exampleMid (Some exampleRobot) Model_init SE3_Identity = Inr m
       \<and> parseTree examplePlate (Some exampleRobot) exampleModelMid (exampleShift 1) = Inr m
       \<and> parseTree exampleArm (Some exampleRobot) exampleModelPlate (exampleShift 2) = Inr m"
  by (simp add: buildModel_def example_defs compiler_defs spatial_defs exampleModelMid_def
        exampleModelPlate_def Model_init_def)

lemma exampleRobot_placements:
  "jointPlacementOf (jointPlacementOf (exampleShift 1) (exampleJoint ''jf2'' FIXED (0, 0, 0) None))
     (exampleJoint ''j1'' REVOLUTE (0, 0, 1) (Some exampleLimits)) = exampleShift 3"
  "jointPlacementOf (exampleShift 2)
     (exampleJoint ''j1'' REVOLUTE (0, 0, 1) (Some exampleLimits)) = exampleShift 3"
  "jointPlacementOf SE3_Identity (exampleJoint ''j2'' PRISMATIC (1, 0, 0) None) = exampleShift 1"
  "jointPlacementOf SE3_Identity (exampleJoint ''jf'' FIXED (0, 0, 0) None) = exampleShift 1"
  by (simp_all add: spatial_defs example_defs)

section \<open>The claims\<close>

text \<open>
  Claim C1. Whenever compilation succeeds, from the fixed root or with an explicit root
  joint, the model has one parent per joint and every joint from index 1 on has a
  parent of smaller index.
\<close>

theorem parents_before_children:
  assumes "buildModel parseURDFFile filename = Inr m
         \<or> buildModel_root parseURDFFile filename root_joint = Inr m"
  shows "length (parents m) = length (joints m)
       \<and> (\<forall>i. 1 \<le> i \<and> i < length (joints m) \<longrightarrow> parents m ! i < i)"
proof -
  have "wf_model m \<and> parentsBefore m"
    using assms
  proof
    assume "buildModel parseURDFFile filename = Inr m"
    then obtain rootLink where "parseTree rootLink None Model_init SE3_Identity = Inr m"
      by (auto simp: buildModel_def split: option.splits)
    then show ?thesis
      using parseTree_parentsBefore wf_Model_init parentsBefore_Model_init by blast
  next
    assume "buildModel_root parseURDFFile filename root_joint = Inr m"
    then obtain rootLink where
      "parseTree_root rootLink Model_init SE3_Identity root_joint = Inr m"
      by (auto simp: buildModel_root_def split: option.splits)
    then obtain m1 where
      a: "addBody 0 root_joint SE3_Identity (linkInertia rootLink) [] [] [] [] ''root_joint''
            (link_name rootLink) True Model_init = Inr m1" and
      c: "parseChildren (child_links rootLink) (Some rootLink) m1 SE3_Identity = Inr m"
      by (cases rule: parseTree_root_cases)
    have "wf_model m1 \<and> parentsBefore m1"
      using addBody_parentsBefore [OF a] wf_Model_init parentsBefore_Model_init by simp
    then show ?thesis
      using parseChildren_parentsBefore [OF _ c] by blast
  qed
  then show ?thesis
    by (simp add: wf_model_def parentsBefore_def)
qed

theorem parents_before_children_witness:
  "(\<exists>m. buildModel (\<lambda>_. Some exampleRobot) ''robot.urdf'' = Inr m
        \<and> length (joints m) = 3 \<and> parents m ! 1 < 1 \<and> parents m ! 2 < 2)
   \<and> (\<exists>m. buildModel_root (\<lambda>_. Some exampleRobot) ''robot.urdf'' JointModelFreeFlyer = Inr m
          \<and> length (joints m) = 4
          \<and> parents m ! 1 < 1 \<and> parents m ! 2 < 2 \<and> parents m ! 3 < 3)"
proof -
  from exampleRobot_fixed_root obtain m where
    b: "buildModel (\<lambda>_. Some exampleRobot) ''robot.urdf'' = Inr m" and
    j: "joints m = [JointModelUniverse, JointModelRZ, JointModelPX]"
    by blast
  have a: "1 \<le> i \<Longrightarrow> i < 3 \<Longrightarrow> parents m ! i < i" for i
    using parents_before_children [of "\<lambda>_. Some exampleRobot" "''robot.urdf''" m] b j by simp
  from a [of 1] a [of 2] have 1: "parents m ! 1 < 1" "parents m ! 2 < 2" by simp_all
  from exampleRobot_explicit_root obtain m' where
    b': "buildModel_root (\<lambda>_. Some exampleRobot) ''robot.urdf'' JointModelFreeFlyer = Inr m'"
    and j': "joints m' = [JointModelUniverse, JointModelFreeFlyer, JointModelRZ, JointModelPX]"
    by blast
  have a': "1 \<le> i \<Longrightarrow> i < 4 \<Longrightarrow> parents m' ! i < i" for i
    using parents_before_children
            [of "\<lambda>_. Some exampleRobot" "''robot.urdf''" m' JointModelFreeFlyer] b' j'
    by simp
  from a' [of 1] a' [of 2] a' [of 3]
  have 2: "parents m' ! 1 < 1" "parents m' ! 2 < 2" "parents m' ! 3 < 3" by simp_all
  from b j 1 b' j' 2 show ?thesis by auto
qed




text \<open>
  Claim C3. A link attached by a fixed joint adds no joint to the model: with parent
  index \<open>p\<close>, its inertia is merged into the parent when it has an inertial block and
  not otherwise, one fixed body is appended with the placement offset composed with the
  joint origin, and the children are parsed from that offset, under the parent of the
  link. A link attached by another joint hands the identity to its children and adds
  one joint, never of the fixed kind; so a traversal adds no joint of the fixed kind.
  The children are parsed one after the other, each on the model the one before it
  left, all from the same offset. So when the traversal of a link attached by a fixed
  joint succeeds and its first child is attached by a joint that is not fixed, the next
  joint of the model is that of the child, under the parent \<open>p\<close> and placed at the
  accumulated offset composed with the origin of its joint; below a link attached by a
  joint that is not fixed, the joint of the first child is placed at the identity
  composed with the origin of its joint.
\<close>

theorem fixed_joint_is_collapsed:
  "(parent_joint link = Some joint \<and> joint_type joint = FIXED
      \<and> parentIndex parentLink model = Inr p \<longrightarrow>
      (let nextPlacementOffset = jointPlacementOf placementOffset joint;
           model1 = (if inertial link \<noteq> None
                     then mergeFixedBody p (jointPlacementOf placementOffset joint)
                            (linkInertia link) model
                     else model);
           model2 = addFixedBody p nextPlacementOffset (link_name link) (visual link) model1
       in visitLink link (Some parentLink) model placementOffset
            = Inr (model2, nextPlacementOffset)
          \<and> joints model2 = joints model
          \<and> fixedBodies model2
              = fixedBodies model @ [(p, nextPlacementOffset, link_name link, visual link)]
          \<and> parseTree link (Some parentLink) model placementOffset
              = parseChildren (child_links link) (Some parentLink) model2 nextPlacementOffset))
   \<and> (parent_joint linkB = Some jointB \<and> joint_type jointB \<noteq> FIXED
        \<and> visitLink linkB parB modelB placementOffsetB = Inr (m1, off1) \<longrightarrow>
        off1 = SE3_Identity
        \<and> (\<exists>j. j \<noteq> JointModelFixed \<and> joints m1 = joints modelB @ [j])
        \<and> parseTree linkB parB modelB placementOffsetB
            = parseChildren (child_links linkB) (Some linkB) m1 SE3_Identity)
   \<and> (JointModelFixed \<notin> set (joints modelC)
        \<and> parseTree linkC parC modelC placementOffsetC = Inr m2 \<longrightarrow>
        JointModelFixed \<notin> set (joints m2))
   \<and> parseChildren [] parC modelC placementOffsetC = Inr modelC
   \<and> parseChildren (child # rest) parC modelC placementOffsetC
       = (case parseTree child parC modelC placementOffsetC of
            Inl e \<Rightarrow> Inl e
          | Inr model' \<Rightarrow> parseChildren rest parC model' placementOffsetC)
   \<and> (parent_joint link = Some joint \<and> joint_type joint = FIXED
        \<and> parentIndex parentLink model = Inr p
        \<and> child_links link = child # rest
        \<and> parent_joint child = Some jc \<and> joint_type jc \<noteq> FIXED
        \<and> parseTree link (Some parentLink) model placementOffset = Inr m3 \<longrightarrow>
        length (joints model) < length (joints m3)
        \<and> names m3 ! length (names model) = joint_name jc
        \<and> parents m3 ! length (parents model) = p
        \<and> placements m3 ! length (placements model)
            = jointPlacementOf (jointPlacementOf placementOffset joint) jc)
   \<and> (parent_joint linkB = Some jointB \<and> joint_type jointB \<noteq> FIXED
        \<and> child_links linkB = child # rest
        \<and> parent_joint child = Some jc \<and> joint_type jc \<noteq> FIXED
        \<and> parseTree linkB (Some parentLink) modelB placementOffsetB = Inr m4 \<longrightarrow>
        names m4 ! length (names modelB) = joint_name jointB
        \<and> placements m4 ! length (placements modelB)
            = jointPlacementOf placementOffsetB jointB
        \<and> names m4 ! Suc (length (names modelB)) = joint_name jc
        \<and> placements m4 ! Suc (length (placements modelB))
            = jointPlacementOf SE3_Identity jc)"
proof (intro conjI impI)
  assume a: "parent_joint link = Some joint \<and> joint_type joint = FIXED
      \<and> parentIndex parentLink model = Inr p"
  then have v: "visitLink link (Some parentLink) model placementOffset =
           Inr (addFixedBody p (jointPlacementOf placementOffset joint) (link_name link) (visual link)
                  (if inertial link \<noteq> None
                   then mergeFixedBody p (jointPlacementOf placementOffset joint) (linkInertia link) model
                   else model),
                jointPlacementOf placementOffset joint)"
    using visitLink_fixed by blast
  from a have c: "childParent link (Some parentLink) = Some parentLink"
    by (simp add: childParent_def)
  show "let nextPlacementOffset = jointPlacementOf placementOffset joint;
           model1 = (if inertial link \<noteq> None
                     then mergeFixedBody p (jointPlacementOf placementOffset joint)
                            (linkInertia link) model
                     else model);
           model2 = addFixedBody p nextPlacementOffset (link_name link) (visual link) model1
       in visitLink link (Some parentLink) model placementOffset
            = Inr (model2, nextPlacementOffset)
          \<and> joints model2 = joints model
          \<and> fixedBodies model2
              = fixedBodies model @ [(p, nextPlacementOffset, link_name link, visual link)]
          \<and> parseTree link (Some parentLink) model placementOffset
              = parseChildren (child_links link) (Some parentLink) model2 nextPlacementOffset"
    unfolding Let_def
    by (simp add: parseTree_unfold [of link] v c addFixedBody_def mergeFixedBody_def)
next
  assume b: "parent_joint linkB = Some jointB \<and> joint_type jointB \<noteq> FIXED
        \<and> visitLink linkB parB modelB placementOffsetB = Inr (m1, off1)"
  then have n: "off1 = SE3_Identity \<and> (\<exists>j. j \<noteq> JointModelFixed \<and> joints m1 = joints modelB @ [j])"
    using visitLink_not_fixed by blast
  from n show "off1 = SE3_Identity" by simp
  from n show "\<exists>j. j \<noteq> JointModelFixed \<and> joints m1 = joints modelB @ [j]" by simp
  from b n show "parseTree linkB parB modelB placementOffsetB
            = parseChildren (child_links linkB) (Some linkB) m1 SE3_Identity"
    by (simp add: parseTree_unfold [of linkB] childParent_def)
next
  assume "JointModelFixed \<notin> set (joints modelC)
        \<and> parseTree linkC parC modelC placementOffsetC = Inr m2"
  then show "JointModelFixed \<notin> set (joints m2)"
    using parseTree_no_fixed_joint by blast
next
  show "parseChildren [] parC modelC placementOffsetC = Inr modelC" by simp
  show "parseChildren (child # rest) parC modelC placementOffsetC
       = (case parseTree child parC modelC placementOffsetC of
            Inl e \<Rightarrow> Inl e
          | Inr model' \<Rightarrow> parseChildren rest parC model' placementOffsetC)"
    by simp
next
  assume h: "parent_joint link = Some joint \<and> joint_type joint = FIXED
        \<and> parentIndex parentLink model = Inr p
        \<and> child_links link = child # rest
        \<and> parent_joint child = Some jc \<and> joint_type jc \<noteq> FIXED
        \<and> parseTree link (Some parentLink) model placementOffset = Inr m3"
  have "names m3 ! length (names model) = joint_name jc
        \<and> parents m3 ! length (parents model) = p
        \<and> placements m3 ! length (placements model)
            = jointPlacementOf (jointPlacementOf placementOffset joint) jc
        \<and> length (joints model) < length (joints m3)"
    using fixed_link_first_child [of link joint parentLink model p child rest jc placementOffset m3] h
    by blast
  then show "length (joints model) < length (joints m3)"
    and "names m3 ! length (names model) = joint_name jc"
    and "parents m3 ! length (parents model) = p"
    and "placements m3 ! length (placements model)
            = jointPlacementOf (jointPlacementOf placementOffset joint) jc"
    by simp_all
next
  assume h: "parent_joint linkB = Some jointB \<and> joint_type jointB \<noteq> FIXED
        \<and> child_links linkB = child # rest
        \<and> parent_joint child = Some jc \<and> joint_type jc \<noteq> FIXED
        \<and> parseTree linkB (Some parentLink) modelB placementOffsetB = Inr m4"
  have "names m4 ! length (names modelB) = joint_name jointB
        \<and> placements m4 ! length (placements modelB)
            = jointPlacementOf placementOffsetB jointB
        \<and> names m4 ! Suc (length (names modelB)) = joint_name jc
        \<and> placements m4 ! Suc (length (placements modelB))
            = jointPlacementOf SE3_Identity jc"
    using moving_link_first_child [of linkB jointB child rest jc parentLink modelB placementOffsetB m4] h
    by blast
  then show "names m4 ! length (names modelB) = joint_name jointB"
    and "placements m4 ! length (placements modelB)
            = jointPlacementOf placementOffsetB jointB"
    and "names m4 ! Suc (length (names modelB)) = joint_name jc"
    and "placements m4 ! Suc (length (placements modelB))
            = jointPlacementOf SE3_Identity jc"
    by simp_all
qed

theorem fixed_joint_is_collapsed_witness:
  "parent_joint exampleMid = Some (exampleJoint ''jf'' FIXED (0, 0, 0) None)
   \<and> parentIndex exampleRobot Model_init = Inr 0
   \<and> visitLink exampleMid (Some exampleRobot) Model_init SE3_Identity
       = Inr (addFixedBody 0 (convertFromUrdf_Pose (examplePose (1, 0, 0))) ''mid'' True
                (mergeFixedBody 0 (convertFromUrdf_Pose (examplePose (1, 0, 0)))
                   (convertFromUrdf_Inertial (exampleInertial 3)) Model_init),
              convertFromUrdf_Pose (examplePose (1, 0, 0)))
   \<and> (\<exists>m1. visitLink exampleArm (Some exampleRobot) Model_init SE3_Identity
               = Inr (m1, SE3_Identity)
            \<and> (\<exists>j. j \<noteq> JointModelFixed \<and> joints m1 = joints Model_init @ [j]))
   \<and> (\<exists>m2. parseTree exampleRobot None Model_init SE3_Identity = Inr m2
            \<and> JointModelFixed \<notin> set (joints m2))
   \<and> parseChildren [exampleMid] (Some exampleRobot) Model_init SE3_Identity
       = parseTree exampleMid (Some exampleRobot) Model_init SE3_Identity
   \<and> parentIndex exampleRobot exampleModelMid = Inr 0
   \<and> (\<exists>m. buildModel (\<lambda>_. Some exampleRobot) ''robot.urdf'' = Inr m
          \<and> parseTree examplePlate (Some exampleRobot) exampleModelMid (exampleShift 1) = Inr m
          \<and> parseTree exampleArm (Some exampleRobot) exampleModelPlate (exampleShift 2) = Inr m
          \<and> length (joints m) = 3
          \<and> names m ! 1 = ''j1'' \<and> parents m ! 1 = 0 \<and> placements m ! 1 = exampleShift 3
          \<and> names m ! 2 = ''j2'' \<and> placements m ! 2 = exampleShift 1)"
proof -
  let ?jf = "exampleJoint ''jf'' FIXED (0, 0, 0) None"
  let ?jf2 = "exampleJoint ''jf2'' FIXED (0, 0, 0) None"
  let ?j1 = "exampleJoint ''j1'' REVOLUTE (0, 0, 1) (Some exampleLimits)"
  let ?j2 = "exampleJoint ''j2'' PRISMATIC (1, 0, 0) None"
  have h1: "parent_joint exampleMid = Some ?jf" by (simp add: exampleMid_def)
  have h2: "joint_type ?jf = FIXED" by (simp add: exampleJoint_def)
  have h3: "parentIndex exampleRobot Model_init = Inr 0"
    by (simp add: exampleRobot_def parentIndex_def existJointName_def Model_init_def)
  have o: "jointPlacementOf SE3_Identity ?jf = convertFromUrdf_Pose (examplePose (1, 0, 0))"
    by (simp add: jointPlacementOf_def exampleJoint_def SE3_mult_def SE3_Identity_def
          convertFromUrdf_Pose_def examplePose_def Let_def mat_mul_def mat_identity_def
          mat_transpose_def vec_dot_def mat_vec_def vec_add_def quaternion_matrix_def)
  have i: "inertial exampleMid \<noteq> None" and
       y: "linkInertia exampleMid = convertFromUrdf_Inertial (exampleInertial 3)" and
       n: "link_name exampleMid = ''mid''" "visual exampleMid = True"
    by (simp_all add: exampleMid_def linkInertia_def)
  from exampleArm_visit obtain m1 where
    v: "visitLink exampleArm (Some exampleRobot) Model_init SE3_Identity = Inr (m1, SE3_Identity)"
    by blast
  have h4: "parent_joint exampleArm = Some ?j1" and h5: "joint_type ?j1 \<noteq> FIXED"
    by (simp_all add: exampleArm_def exampleJoint_def)
  from exampleRobot_fixed_root obtain m2 where
    b: "parseTree exampleRobot None Model_init SE3_Identity = Inr m2"
    by (auto simp: buildModel_def)
  have h6: "JointModelFixed \<notin> set (joints Model_init)" by (simp add: Model_init_def)
  from exampleRobot_stages obtain m where
    bm: "buildModel (\<lambda>_. Some exampleRobot) ''robot.urdf'' = Inr m" and
    pp: "parseTree examplePlate (Some exampleRobot) exampleModelMid (exampleShift 1) = Inr m" and
    pa: "parseTree exampleArm (Some exampleRobot) exampleModelPlate (exampleShift 2) = Inr m"
    by blast
  have h7: "parent_joint examplePlate = Some ?jf2" "joint_type ?jf2 = FIXED"
    "child_links examplePlate = exampleArm # []"
    "child_links exampleArm = exampleSlider # []"
    "parent_joint exampleSlider = Some ?j2" "joint_type ?j2 \<noteq> FIXED"
    "joint_name ?j1 = ''j1''" "joint_name ?j2 = ''j2''"
    by (simp_all add: examplePlate_def exampleArm_def exampleSlider_def exampleJoint_def)
  have h8: "parentIndex exampleRobot exampleModelMid = Inr 0"
    by (simp add: exampleRobot_def parentIndex_def existJointName_def exampleModelMid_def
          addFixedBody_def mergeFixedBody_def Model_init_def)
  have l: "length (names exampleModelMid) = 1" "length (parents exampleModelMid) = 1"
    "length (placements exampleModelMid) = 1" "length (joints exampleModelMid) = 1"
    "length (names exampleModelPlate) = 1" "length (placements exampleModelPlate) = 1"
    by (simp_all add: exampleModelPlate_def exampleModelMid_def addFixedBody_def
          mergeFixedBody_def Model_init_def)
  note t = fixed_joint_is_collapsed
    [where link = exampleMid and joint = ?jf and parentLink = exampleRobot
       and model = Model_init and p = 0 and placementOffset = SE3_Identity
       and linkB = exampleArm and jointB = ?j1
       and parB = "Some exampleRobot" and modelB = Model_init
       and placementOffsetB = SE3_Identity and ?m1.0 = m1 and ?off1.0 = SE3_Identity
       and linkC = exampleRobot and parC = None and modelC = Model_init
       and placementOffsetC = SE3_Identity and ?m2.0 = m2]
  note u = fixed_joint_is_collapsed
    [where link = examplePlate and joint = ?jf2 and parentLink = exampleRobot
       and model = exampleModelMid and p = 0 and placementOffset = "exampleShift 1"
       and child = exampleArm and rest = "[]" and jc = ?j1 and ?m3.0 = m
       and parC = "Some exampleRobot" and modelC = Model_init
       and placementOffsetC = SE3_Identity]
  note w = fixed_joint_is_collapsed
    [where linkB = exampleArm and jointB = ?j1 and parentLink = exampleRobot
       and modelB = exampleModelPlate and placementOffsetB = "exampleShift 2"
       and child = exampleSlider and rest = "[]" and jc = ?j2 and ?m4.0 = m]
  from t h1 h2 h3 have 1:
    "visitLink exampleMid (Some exampleRobot) Model_init SE3_Identity
       = Inr (addFixedBody 0 (convertFromUrdf_Pose (examplePose (1, 0, 0))) ''mid'' True
                (mergeFixedBody 0 (convertFromUrdf_Pose (examplePose (1, 0, 0)))
                   (convertFromUrdf_Inertial (exampleInertial 3)) Model_init),
              convertFromUrdf_Pose (examplePose (1, 0, 0)))"
    by (simp add: Let_def o i y n)
  from t h4 h5 v have 2: "\<exists>j. j \<noteq> JointModelFixed \<and> joints m1 = joints Model_init @ [j]"
    by blast
  from t h6 b have 3: "JointModelFixed \<notin> set (joints m2)"
    by blast
  from u have 4: "parseChildren [exampleMid] (Some exampleRobot) Model_init SE3_Identity
       = parseTree exampleMid (Some exampleRobot) Model_init SE3_Identity"
    by (simp split: sum.splits)
  from u h7 h8 h5 h4 pp have 5:
    "length (joints exampleModelMid) < length (joints m)
     \<and> names m ! length (names exampleModelMid) = joint_name ?j1
     \<and> parents m ! length (parents exampleModelMid) = 0
     \<and> placements m ! length (placements exampleModelMid)
          = jointPlacementOf (jointPlacementOf (exampleShift 1) ?jf2) ?j1"
    by blast
  from w h7 h5 h4 pa have 6:
    "names m ! Suc (length (names exampleModelPlate)) = joint_name ?j2
     \<and> placements m ! Suc (length (placements exampleModelPlate))
          = jointPlacementOf SE3_Identity ?j2"
    by blast
  from exampleRobot_fixed_root bm have 7: "length (joints m) = 3" by auto
  from 5 6 have 8:
    "names m ! 1 = ''j1'' \<and> parents m ! 1 = 0 \<and> placements m ! 1 = exampleShift 3
     \<and> names m ! 2 = ''j2'' \<and> placements m ! 2 = exampleShift 1"
    by (simp add: l h7 exampleRobot_placements numeral_2_eq_2)
  from h1 h3 1 v 2 b 3 4 h8 bm pp pa 7 8 show ?thesis by blast
qed

text \<open>
  Claim C4, as amended. From the fixed root the total mass of the model is the sum of
  the masses of the inertial blocks of all links but the root, whose inertial block is
  not read; with an explicit root joint it is the sum over all links (a root link
  without inertial block brings the mass of the identity inertia, which is 0).
\<close>

theorem total_mass_of_model:
  "(buildModel parseURDFFile filename = Inr m \<and> parseURDFFile filename = Some rootLink \<longrightarrow>
      totalMass m = forestMass (child_links rootLink)
      \<and> totalMass m = treeMass rootLink - ownMass rootLink)
   \<and> (buildModel_root parseURDFFile filename root_joint = Inr m'
        \<and> parseURDFFile filename = Some rootLink \<longrightarrow>
        totalMass m' = treeMass rootLink)"
proof (intro conjI impI)
  assume a: "buildModel parseURDFFile filename = Inr m \<and> parseURDFFile filename = Some rootLink"
  then have "parseTree rootLink None Model_init SE3_Identity = Inr m"
    by (auto simp: buildModel_def)
  from parseTree_mass(1) [OF wf_Model_init this]
  show f: "totalMass m = forestMass (child_links rootLink)"
    by (simp add: totalMass_Model_init)
  then show "totalMass m = treeMass rootLink - ownMass rootLink"
    by (simp add: treeMass_eq)
next
  assume "buildModel_root parseURDFFile filename root_joint = Inr m'
        \<and> parseURDFFile filename = Some rootLink"
  then have "parseTree_root rootLink Model_init SE3_Identity root_joint = Inr m'"
    by (auto simp: buildModel_root_def)
  then obtain m1 where
    a: "addBody 0 root_joint SE3_Identity (linkInertia rootLink) [] [] [] [] ''root_joint''
          (link_name rootLink) True Model_init = Inr m1" and
    c: "parseChildren (child_links rootLink) (Some rootLink) m1 SE3_Identity = Inr m'"
    by (cases rule: parseTree_root_cases)
  have wf1: "wf_model m1"
    using addBody_parentsBefore [OF a] wf_Model_init parentsBefore_Model_init by simp
  have "totalMass m1 = ownMass rootLink"
    using totalMass_addBody [OF a] by (simp add: totalMass_Model_init mass_linkInertia)
  with parseTree_mass(2) [OF wf1 _ c] show "totalMass m' = treeMass rootLink"
    by (simp add: treeMass_eq)
qed

theorem total_mass_of_model_witness:
  "(\<exists>m. buildModel (\<lambda>_. Some exampleRobot) ''robot.urdf'' = Inr m \<and> totalMass m = 8)
   \<and> (\<exists>m. buildModel_root (\<lambda>_. Some exampleRobot) ''robot.urdf'' JointModelFreeFlyer = Inr m
          \<and> totalMass m = 10)"
proof -
  from exampleRobot_fixed_root obtain m where
    b: "buildModel (\<lambda>_. Some exampleRobot) ''robot.urdf'' = Inr m" by blast
  from exampleRobot_explicit_root obtain m' where
    b': "buildModel_root (\<lambda>_. Some exampleRobot) ''robot.urdf'' JointModelFreeFlyer = Inr m'"
    by blast
  note t = total_mass_of_model
    [where parseURDFFile = "\<lambda>_. Some exampleRobot" and filename = "''robot.urdf''"
       and rootLink = exampleRobot and m = m and m' = m' and root_joint = JointModelFreeFlyer]
  from t b have "totalMass m = 8"
    by (simp add: exampleRobot_treeMass) (simp add: exampleRobot_def ownMass_def exampleInertial_def)
  moreover from t b' have "totalMass m' = 10"
    by (simp add: exampleRobot_treeMass)
  ultimately show ?thesis using b b' by blast
qed

text \<open>
  Claim C4 as stated fails from the fixed root: a root link with an inertial block of
  mass 2 and no children compiles to the initial model, of total mass 0.
\<close>

theorem root_mass_dropped_counterexample:
  "buildModel (\<lambda>_. Some exampleRootOnly) ''robot.urdf'' = Inr Model_init
   \<and> totalMass Model_init = 0 \<and> treeMass exampleRootOnly = 2
   \<and> totalMass Model_init \<noteq> treeMass exampleRootOnly"
  by (simp add: buildModel_def exampleRootOnly_def visitLink_def totalMass_Model_init
        exampleInertial_def)

text \<open>
  Claim C5, as amended. A link with a parent raises the error "<link> - spatial inertia
  information missing." when it is visited exactly when it is attached by a joint that
  is not fixed and has no inertial block; a link attached by a fixed joint never does.
  Compilation fails with that error naming \<open>n\<close> only if the tree has such a link
  named \<open>n\<close>. When the tree has such a link (below the root, under an explicit root
  joint) compilation fails, but the error may be another one, raised earlier in the
  traversal.
\<close>

theorem missing_inertia_error:
  "(visitLink link (Some parentLink) model placementOffset
      = Inl (InvalidArgument (link_name link @ '' - spatial inertia information missing.''))
    \<longleftrightarrow> lacksInertia link)
   \<and> (parseURDFFile filename = Some rootLink
        \<and> buildModel parseURDFFile filename
            = Inl (InvalidArgument (n @ '' - spatial inertia information missing.'')) \<longrightarrow>
        (\<exists>L\<in>set (linksOf rootLink). link_name L = n \<and> lacksInertia L))
   \<and> (parseURDFFile filename = Some rootLink
        \<and> buildModel_root parseURDFFile filename root_joint
            = Inl (InvalidArgument (n @ '' - spatial inertia information missing.'')) \<longrightarrow>
        (\<exists>L\<in>set (linksOfList (child_links rootLink)). link_name L = n \<and> lacksInertia L))
   \<and> (parseURDFFile filename = Some rootLink
        \<and> (\<exists>L\<in>set (linksOf rootLink). lacksInertia L) \<longrightarrow>
        (\<exists>e. buildModel parseURDFFile filename = Inl e))
   \<and> (parseURDFFile filename = Some rootLink
        \<and> (\<exists>L\<in>set (linksOfList (child_links rootLink)). lacksInertia L) \<longrightarrow>
        (\<exists>e. buildModel_root parseURDFFile filename root_joint = Inl e))"
proof (intro conjI impI)
  show "visitLink link (Some parentLink) model placementOffset
      = Inl (InvalidArgument (link_name link @ '' - spatial inertia information missing.''))
    \<longleftrightarrow> lacksInertia link"
    by (rule visitLink_lacksInertia)
next
  assume "parseURDFFile filename = Some rootLink
        \<and> buildModel parseURDFFile filename
            = Inl (InvalidArgument (n @ '' - spatial inertia information missing.''))"
  then have "parseTree rootLink None Model_init SE3_Identity
     = Inl (InvalidArgument (n @ '' - spatial inertia information missing.''))"
    by (auto simp: buildModel_def)
  then show "\<exists>L\<in>set (linksOf rootLink). link_name L = n \<and> lacksInertia L"
    by (rule parseTree_MissingInertia(1))
next
  assume "parseURDFFile filename = Some rootLink
        \<and> buildModel_root parseURDFFile filename root_joint
            = Inl (InvalidArgument (n @ '' - spatial inertia information missing.''))"
  then have "parseTree_root rootLink Model_init SE3_Identity root_joint
     = Inl (InvalidArgument (n @ '' - spatial inertia information missing.''))"
    by (auto simp: buildModel_root_def)
  from parseTree_root_Inl [OF this]
  show "\<exists>L\<in>set (linksOfList (child_links rootLink)). link_name L = n \<and> lacksInertia L"
    by (rule parseTree_MissingInertia(2))
next
  assume a: "parseURDFFile filename = Some rootLink
        \<and> (\<exists>L\<in>set (linksOf rootLink). lacksInertia L)"
  show "\<exists>e. buildModel parseURDFFile filename = Inl e"
  proof (cases "buildModel parseURDFFile filename")
    case (Inr m)
    with a have "parseTree rootLink None Model_init SE3_Identity = Inr m"
      by (auto simp: buildModel_def)
    from parseTree_no_lacksInertia(1) [OF this]
    show ?thesis using a by blast
  qed simp
next
  assume a: "parseURDFFile filename = Some rootLink
        \<and> (\<exists>L\<in>set (linksOfList (child_links rootLink)). lacksInertia L)"
  show "\<exists>e. buildModel_root parseURDFFile filename root_joint = Inl e"
  proof (cases "buildModel_root parseURDFFile filename root_joint")
    case (Inr m)
    with a have "parseTree_root rootLink Model_init SE3_Identity root_joint = Inr m"
      by (auto simp: buildModel_root_def)
    then obtain m1 where
      "parseChildren (child_links rootLink) (Some rootLink) m1 SE3_Identity = Inr m"
      by (cases rule: parseTree_root_cases)
    from parseTree_no_lacksInertia(2) [OF this]
    show ?thesis using a by blast
  qed simp
qed

theorem missing_inertia_error_witness:
  "buildModel (\<lambda>_. Some exampleSkewRobotBare) ''robot.urdf''
     = Inl (InvalidArgument (''skew'' @ '' - spatial inertia information missing.''))
   \<and> (\<exists>L\<in>set (linksOf exampleSkewRobotBare). link_name L = ''skew'' \<and> lacksInertia L)
   \<and> buildModel_root (\<lambda>_. Some exampleSkewRobotBare) ''robot.urdf'' JointModelFreeFlyer
       = Inl (InvalidArgument (''skew'' @ '' - spatial inertia information missing.''))
   \<and> (\<exists>L\<in>set (linksOfList (child_links exampleSkewRobotBare)).
         link_name L = ''skew'' \<and> lacksInertia L)
   \<and> (\<exists>e. buildModel (\<lambda>_. Some exampleSkewRobotBare) ''robot.urdf'' = Inl e)
   \<and> (\<exists>e. buildModel_root (\<lambda>_. Some exampleSkewRobotBare) ''robot.urdf'' JointModelFreeFlyer
            = Inl e)"
proof -
  have b: "buildModel (\<lambda>_. Some exampleSkewRobotBare) ''robot.urdf''
     = Inl (InvalidArgument (''skew'' @ '' - spatial inertia information missing.''))"
    using exampleSkewRobotBare_fixed_root by simp
  have b': "buildModel_root (\<lambda>_. Some exampleSkewRobotBare) ''robot.urdf'' JointModelFreeFlyer
     = Inl (InvalidArgument (''skew'' @ '' - spatial inertia information missing.''))"
    using exampleSkewRobotBare_explicit_root by simp
  note t = missing_inertia_error
    [where parseURDFFile = "\<lambda>_. Some exampleSkewRobotBare" and filename = "''robot.urdf''"
       and rootLink = exampleSkewRobotBare and n = "''skew''"
       and root_joint = JointModelFreeFlyer]
  from t b have 1: "\<exists>L\<in>set (linksOf exampleSkewRobotBare). link_name L = ''skew'' \<and> lacksInertia L"
    by blast
  from t b' have 2: "\<exists>L\<in>set (linksOfList (child_links exampleSkewRobotBare)).
         link_name L = ''skew'' \<and> lacksInertia L"
    by blast
  from 1 have 3: "\<exists>L\<in>set (linksOf exampleSkewRobotBare). lacksInertia L" by blast
  from 2 have 4: "\<exists>L\<in>set (linksOfList (child_links exampleSkewRobotBare)). lacksInertia L"
    by blast
  from t 3 have 5: "\<exists>e. buildModel (\<lambda>_. Some exampleSkewRobotBare) ''robot.urdf'' = Inl e"
    by blast
  from t 4 have 6: "\<exists>e. buildModel_root (\<lambda>_. Some exampleSkewRobotBare) ''robot.urdf''
      JointModelFreeFlyer = Inl e"
    by blast
  from b b' 1 2 5 6 show ?thesis by blast
qed

text \<open>
  Claim C5 as stated fails in its "if" direction: here a link attached by a revolute
  joint has no inertial block, and the compilation ends with the failed assertion of
  the unaligned prismatic joint above it.
\<close>

theorem missing_inertia_preempted_counterexample:
  "lacksInertia exampleNoInertia
   \<and> exampleNoInertia \<in> set (linksOf exampleSkewRobot)
   \<and> buildModel (\<lambda>_. Some exampleSkewRobot) ''robot.urdf''
       = Inl (AssertionFailed ''Only X, Y or Z axis are accepted.'')"
  using exampleSkewRobot_fixed_root
  by (simp add: lacksInertia_def exampleNoInertia_def exampleSkewRobot_def exampleSkewSlider_def
        exampleJoint_def)

text \<open>
  Claim C6, as amended. A link attached by a prismatic joint about an axis that is none
  of the canonical three meets the failed assertion "Only X, Y or Z axis are accepted."
  once it has passed the earlier checks (it has an inertial block and its parent index
  is found); a tree with such a link never compiles to a model, from either entry. A
  prismatic joint about a canonical axis is emitted through \<open>addBody\<close> with the
  prismatic joint model of that axis.
\<close>

theorem prismatic_axis:
  "(unalignedPrismatic link \<and> inertial link \<noteq> None
      \<and> parentIndex parentLink model = Inr p \<longrightarrow>
      visitLink link (Some parentLink) model placementOffset
        = Inl (AssertionFailed ''Only X, Y or Z axis are accepted.''))
   \<and> (parseURDFFile filename = Some rootLink
        \<and> (\<exists>L\<in>set (linksOf rootLink). unalignedPrismatic L) \<longrightarrow>
        (\<exists>e. buildModel parseURDFFile filename = Inl e))
   \<and> (parseURDFFile filename = Some rootLink
        \<and> (\<exists>L\<in>set (linksOfList (child_links rootLink)). unalignedPrismatic L) \<longrightarrow>
        (\<exists>e. buildModel_root parseURDFFile filename root_joint = Inl e))
   \<and> (joint_type joint = PRISMATIC \<and> axis joint = (1, 0, 0) \<longrightarrow>
        emitJoint joint linkB parent modelB placementOffsetB
          = addBodyFor JointModelPX joint linkB parent modelB placementOffsetB)
   \<and> (joint_type joint = PRISMATIC \<and> axis joint = (0, 1, 0) \<longrightarrow>
        emitJoint joint linkB parent modelB placementOffsetB
          = addBodyFor JointModelPY joint linkB parent modelB placementOffsetB)
   \<and> (joint_type joint = PRISMATIC \<and> axis joint = (0, 0, 1) \<longrightarrow>
        emitJoint joint linkB parent modelB placementOffsetB
          = addBodyFor JointModelPZ joint linkB parent modelB placementOffsetB)"
proof (intro conjI impI)
  assume "unalignedPrismatic link \<and> inertial link \<noteq> None
      \<and> parentIndex parentLink model = Inr p"
  then show "visitLink link (Some parentLink) model placementOffset
        = Inl (AssertionFailed ''Only X, Y or Z axis are accepted.'')"
    by (auto simp: unalignedPrismatic_def visitLink_def emitJoint_def addPrismatic_def Let_def
          split: option.splits prod.splits)
next
  assume a: "parseURDFFile filename = Some rootLink
        \<and> (\<exists>L\<in>set (linksOf rootLink). unalignedPrismatic L)"
  show "\<exists>e. buildModel parseURDFFile filename = Inl e"
  proof (cases "buildModel parseURDFFile filename")
    case (Inr m)
    with a have "parseTree rootLink None Model_init SE3_Identity = Inr m"
      by (auto simp: buildModel_def)
    from parseTree_no_unalignedPrismatic(1) [OF this]
    show ?thesis using a by blast
  qed simp
next
  assume a: "parseURDFFile filename = Some rootLink
        \<and> (\<exists>L\<in>set (linksOfList (child_links rootLink)). unalignedPrismatic L)"
  show "\<exists>e. buildModel_root parseURDFFile filename root_joint = Inl e"
  proof (cases "buildModel_root parseURDFFile filename root_joint")
    case (Inr m)
    with a have "parseTree_root rootLink Model_init SE3_Identity root_joint = Inr m"
      by (auto simp: buildModel_root_def)
    then obtain m1 where
      "parseChildren (child_links rootLink) (Some rootLink) m1 SE3_Identity = Inr m"
      by (cases rule: parseTree_root_cases)
    from parseTree_no_unalignedPrismatic(2) [OF this]
    show ?thesis using a by blast
  qed simp
next
  assume "joint_type joint = PRISMATIC \<and> axis joint = (1, 0, 0)"
  then show "emitJoint joint linkB parent modelB placementOffsetB
          = addBodyFor JointModelPX joint linkB parent modelB placementOffsetB"
    by (simp add: emitJoint_def addPrismatic_def addBodyFor_def Let_def extractCartesianAxis_def
          jointPlacementOf_def linkInertia_def split: prod.splits)
next
  assume "joint_type joint = PRISMATIC \<and> axis joint = (0, 1, 0)"
  then show "emitJoint joint linkB parent modelB placementOffsetB
          = addBodyFor JointModelPY joint linkB parent modelB placementOffsetB"
    by (simp add: emitJoint_def addPrismatic_def addBodyFor_def Let_def extractCartesianAxis_def
          jointPlacementOf_def linkInertia_def split: prod.splits)
next
  assume "joint_type joint = PRISMATIC \<and> axis joint = (0, 0, 1)"
  then show "emitJoint joint linkB parent modelB placementOffsetB
          = addBodyFor JointModelPZ joint linkB parent modelB placementOffsetB"
    by (simp add: emitJoint_def addPrismatic_def addBodyFor_def Let_def extractCartesianAxis_def
          jointPlacementOf_def linkInertia_def split: prod.splits)
qed

theorem prismatic_axis_witness:
  "unalignedPrismatic exampleSkewSlider
   \<and> parentIndex exampleSkewRobot Model_init = Inr 0
   \<and> visitLink exampleSkewSlider (Some exampleSkewRobot) Model_init SE3_Identity
       = Inl (AssertionFailed ''Only X, Y or Z axis are accepted.'')
   \<and> (\<exists>e. buildModel (\<lambda>_. Some exampleSkewRobot) ''robot.urdf'' = Inl e)
   \<and> (\<exists>e. buildModel_root (\<lambda>_. Some exampleSkewRobot) ''robot.urdf'' JointModelFreeFlyer
            = Inl e)
   \<and> emitJoint (exampleJoint ''j2'' PRISMATIC (1, 0, 0) None) exampleSlider 1 Model_init
         SE3_Identity
       = addBodyFor JointModelPX (exampleJoint ''j2'' PRISMATIC (1, 0, 0) None) exampleSlider 1
           Model_init SE3_Identity
   \<and> emitJoint (exampleJoint ''j2'' PRISMATIC (0, 1, 0) None) exampleSlider 1 Model_init
         SE3_Identity
       = addBodyFor JointModelPY (exampleJoint ''j2'' PRISMATIC (0, 1, 0) None) exampleSlider 1
           Model_init SE3_Identity
   \<and> emitJoint (exampleJoint ''j2'' PRISMATIC (0, 0, 1) None) exampleSlider 1 Model_init
         SE3_Identity
       = addBodyFor JointModelPZ (exampleJoint ''j2'' PRISMATIC (0, 0, 1) None) exampleSlider 1
           Model_init SE3_Identity"
proof -
  have u: "unalignedPrismatic exampleSkewSlider"
    by (simp add: unalignedPrismatic_def exampleSkewSlider_def exampleJoint_def
          extractCartesianAxis_def)
  have i: "inertial exampleSkewSlider \<noteq> None" by (simp add: exampleSkewSlider_def)
  have p: "parentIndex exampleSkewRobot Model_init = Inr 0"
    by (simp add: parentIndex_def exampleSkewRobot_def existJointName_def Model_init_def)
  have l: "\<exists>L\<in>set (linksOf exampleSkewRobot). unalignedPrismatic L"
    using u by (auto simp: exampleSkewRobot_def linksOf_self)
  have l': "\<exists>L\<in>set (linksOfList (child_links exampleSkewRobot)). unalignedPrismatic L"
    using u by (auto simp: exampleSkewRobot_def linksOf_self)
  note t = prismatic_axis
    [where link = exampleSkewSlider and parentLink = exampleSkewRobot and model = Model_init
       and p = 0 and placementOffset = SE3_Identity
       and parseURDFFile = "\<lambda>_. Some exampleSkewRobot" and filename = "''robot.urdf''"
       and rootLink = exampleSkewRobot and root_joint = JointModelFreeFlyer
       and linkB = exampleSlider and parent = 1 and modelB = Model_init
       and placementOffsetB = SE3_Identity]
  note tx = t [where joint = "exampleJoint ''j2'' PRISMATIC (1, 0, 0) None"]
  note ty = t [where joint = "exampleJoint ''j2'' PRISMATIC (0, 1, 0) None"]
  note tz = t [where joint = "exampleJoint ''j2'' PRISMATIC (0, 0, 1) None"]
  from tx u i p have 1: "visitLink exampleSkewSlider (Some exampleSkewRobot) Model_init SE3_Identity
       = Inl (AssertionFailed ''Only X, Y or Z axis are accepted.'')"
    by blast
  from tx l have 2: "\<exists>e. buildModel (\<lambda>_. Some exampleSkewRobot) ''robot.urdf'' = Inl e"
    by blast
  from tx l' have 3: "\<exists>e. buildModel_root (\<lambda>_. Some exampleSkewRobot) ''robot.urdf''
      JointModelFreeFlyer = Inl e"
    by blast
  from tx have 4: "emitJoint (exampleJoint ''j2'' PRISMATIC (1, 0, 0) None) exampleSlider 1 Model_init
         SE3_Identity
       = addBodyFor JointModelPX (exampleJoint ''j2'' PRISMATIC (1, 0, 0) None) exampleSlider 1
           Model_init SE3_Identity"
    by (simp add: exampleJoint_def)
  from ty have 5: "emitJoint (exampleJoint ''j2'' PRISMATIC (0, 1, 0) None) exampleSlider 1 Model_init
         SE3_Identity
       = addBodyFor JointModelPY (exampleJoint ''j2'' PRISMATIC (0, 1, 0) None) exampleSlider 1
           Model_init SE3_Identity"
    by (simp add: exampleJoint_def)
  from tz have 6: "emitJoint (exampleJoint ''j2'' PRISMATIC (0, 0, 1) None) exampleSlider 1 Model_init
         SE3_Identity
       = addBodyFor JointModelPZ (exampleJoint ''j2'' PRISMATIC (0, 0, 1) None) exampleSlider 1
           Model_init SE3_Identity"
    by (simp add: exampleJoint_def)
  from u p 1 2 3 4 5 6 show ?thesis by blast
qed

text \<open>
  Claim C6 as stated fails on the kind of the error: here the child link of the
  unaligned prismatic joint has no inertial block, and the compilation ends with the
  missing-inertia error.
\<close>

theorem prismatic_error_preempted_counterexample:
  "unalignedPrismatic exampleSkewSliderBare
   \<and> exampleSkewSliderBare \<in> set (linksOf exampleSkewRobotBare)
   \<and> buildModel (\<lambda>_. Some exampleSkewRobotBare) ''robot.urdf''
       = Inl (InvalidArgument ''skew - spatial inertia information missing.'')"
  using exampleSkewRobotBare_fixed_root
  by (simp add: unalignedPrismatic_def exampleSkewSliderBare_def exampleSkewRobotBare_def
        exampleJoint_def extractCartesianAxis_def)

text \<open>
  Claim C7. The axis classifier gives X, Y or Z exactly on the three canonical vectors
  and "unaligned" on every other vector. A revolute joint about an unaligned axis is
  emitted through \<open>addBody\<close> as a revolute joint about an arbitrary axis that carries
  the axis divided by its norm: for an axis \<open>(x, y, z)\<close> other than the zero vector
  each coordinate is divided by \<open>sqrt (x * x + y * y + z * z)\<close>, which for the axis
  \<open>(1,1,0)\<close> gives \<open>(sqrt(1/2), sqrt(1/2), 0)\<close> and for every such axis a vector of
  norm 1. (Coordinates are reals here. On the zero vector the quotients divide by
  zero, and nothing is said of them.)
\<close>

theorem axis_classifier_and_unaligned_revolute:
  "(extractCartesianAxis a = AXIS_X \<longleftrightarrow> a = (1, 0, 0))
   \<and> (extractCartesianAxis a = AXIS_Y \<longleftrightarrow> a = (0, 1, 0))
   \<and> (extractCartesianAxis a = AXIS_Z \<longleftrightarrow> a = (0, 0, 1))
   \<and> (extractCartesianAxis a = AXIS_UNALIGNED
        \<longleftrightarrow> a \<noteq> (1, 0, 0) \<and> a \<noteq> (0, 1, 0) \<and> a \<noteq> (0, 0, 1))
   \<and> (joint_type joint = REVOLUTE \<and> extractCartesianAxis (axis joint) = AXIS_UNALIGNED \<longrightarrow>
        emitJoint joint link parent model placementOffset
          = addBodyFor (JointModelRevoluteUnaligned (vec_normalize (axis joint))) joint link parent
              model placementOffset)
   \<and> (joint_type joint = REVOLUTE \<and> extractCartesianAxis (axis joint) = AXIS_UNALIGNED
        \<and> axis joint = (x, y, z) \<and> (x, y, z) \<noteq> (0, 0, 0) \<longrightarrow>
        emitJoint joint link parent model placementOffset
          = addBodyFor
              (JointModelRevoluteUnaligned
                 (x / sqrt (x * x + y * y + z * z),
                  y / sqrt (x * x + y * y + z * z),
                  z / sqrt (x * x + y * y + z * z)))
              joint link parent model placementOffset)
   \<and> ((x, y, z) \<noteq> (0, 0, 0) \<longrightarrow>
        vec_normalize (x, y, z)
          = (x / sqrt (x * x + y * y + z * z),
             y / sqrt (x * x + y * y + z * z),
             z / sqrt (x * x + y * y + z * z)))
   \<and> vec_norm (x, y, z) = sqrt (x * x + y * y + z * z)
   \<and> vec_normalize (1, 1, 0) = (sqrt (1 / 2), sqrt (1 / 2), 0)
   \<and> (v \<noteq> (0, 0, 0) \<longrightarrow> vec_norm (vec_normalize v) = 1)"
proof -
  obtain a1 a2 a3 where a: "a = (a1, a2, a3)" by (cases a)
  have c: "(extractCartesianAxis a = AXIS_X \<longleftrightarrow> a = (1, 0, 0))
   \<and> (extractCartesianAxis a = AXIS_Y \<longleftrightarrow> a = (0, 1, 0))
   \<and> (extractCartesianAxis a = AXIS_Z \<longleftrightarrow> a = (0, 0, 1))
   \<and> (extractCartesianAxis a = AXIS_UNALIGNED
        \<longleftrightarrow> a \<noteq> (1, 0, 0) \<and> a \<noteq> (0, 1, 0) \<and> a \<noteq> (0, 0, 1))"
    by (auto simp: a extractCartesianAxis_def)
  have e: "joint_type joint = REVOLUTE \<and> extractCartesianAxis (axis joint) = AXIS_UNALIGNED \<longrightarrow>
        emitJoint joint link parent model placementOffset
          = addBodyFor (JointModelRevoluteUnaligned (vec_normalize (axis joint))) joint link parent
              model placementOffset"
    by (simp add: emitJoint_def addRevolute_def addBodyFor_def Let_def jointPlacementOf_def
          linkInertia_def split: prod.splits)
  have n: "vec_normalize (x, y, z)
          = (x / sqrt (x * x + y * y + z * z),
             y / sqrt (x * x + y * y + z * z),
             z / sqrt (x * x + y * y + z * z))"
    by (rule vec_normalize_explicit)
  have f: "joint_type joint = REVOLUTE \<and> extractCartesianAxis (axis joint) = AXIS_UNALIGNED
        \<and> axis joint = (x, y, z) \<and> (x, y, z) \<noteq> (0, 0, 0) \<longrightarrow>
        emitJoint joint link parent model placementOffset
          = addBodyFor
              (JointModelRevoluteUnaligned
                 (x / sqrt (x * x + y * y + z * z),
                  y / sqrt (x * x + y * y + z * z),
                  z / sqrt (x * x + y * y + z * z)))
              joint link parent model placementOffset"
  proof
    assume h: "joint_type joint = REVOLUTE \<and> extractCartesianAxis (axis joint) = AXIS_UNALIGNED
        \<and> axis joint = (x, y, z) \<and> (x, y, z) \<noteq> (0, 0, 0)"
    then have ax: "axis joint = (x, y, z)" by blast
    from h e have "emitJoint joint link parent model placementOffset
          = addBodyFor (JointModelRevoluteUnaligned (vec_normalize (axis joint))) joint link parent
              model placementOffset"
      by blast
    then show "emitJoint joint link parent model placementOffset
          = addBodyFor
              (JointModelRevoluteUnaligned
                 (x / sqrt (x * x + y * y + z * z),
                  y / sqrt (x * x + y * y + z * z),
                  z / sqrt (x * x + y * y + z * z)))
              joint link parent model placementOffset"
      by (simp only: ax n)
  qed
  have d: "vec_norm (x, y, z) = sqrt (x * x + y * y + z * z)"
    by (simp add: vec_norm_def vec_dot_def)
  from c e f n d vec_normalize_110 vec_norm_normalize show ?thesis by blast
qed

theorem axis_classifier_and_unaligned_revolute_witness:
  "extractCartesianAxis (1, 1, 0) = AXIS_UNALIGNED
   \<and> emitJoint (exampleJoint ''j5'' REVOLUTE (1, 1, 0) None) exampleSkewHinge 0 Model_init
         SE3_Identity
       = addBodyFor (JointModelRevoluteUnaligned (sqrt (1 / 2), sqrt (1 / 2), 0))
           (exampleJoint ''j5'' REVOLUTE (1, 1, 0) None) exampleSkewHinge 0 Model_init
           SE3_Identity
   \<and> (\<exists>m. buildModel (\<lambda>_. Some exampleHingeRobot) ''robot.urdf'' = Inr m
          \<and> joints m
              = [JointModelUniverse,
                 JointModelRevoluteUnaligned (sqrt (1 / 2), sqrt (1 / 2), 0)])
   \<and> vec_norm (vec_normalize (1, 1, 0)) = 1
   \<and> extractCartesianAxis (3, 4, 0) = AXIS_UNALIGNED
   \<and> emitJoint (exampleJoint ''j5'' REVOLUTE (3, 4, 0) None) exampleSkewHinge 0 Model_init
         SE3_Identity
       = addBodyFor (JointModelRevoluteUnaligned (3 / 5, 4 / 5, 0))
           (exampleJoint ''j5'' REVOLUTE (3, 4, 0) None) exampleSkewHinge 0 Model_init
           SE3_Identity
   \<and> vec_normalize (0, 0, 2) = (0, 0, 1)
   \<and> vec_norm (3, 4, 0) = 5"
proof -
  let ?j = "exampleJoint ''j5'' REVOLUTE (1, 1, 0) None"
  let ?k = "exampleJoint ''j5'' REVOLUTE (3, 4, 0) None"
  note t = axis_classifier_and_unaligned_revolute
    [where a = "(1, 1, 0)" and joint = ?j and link = exampleSkewHinge and parent = 0
       and model = Model_init and placementOffset = SE3_Identity and v = "(1, 1, 0)"
       and x = 1 and y = 1 and z = 0]
  note t' = axis_classifier_and_unaligned_revolute
    [where a = "(3, 4, 0)" and joint = ?k and link = exampleSkewHinge and parent = 0
       and model = Model_init and placementOffset = SE3_Identity and x = 3 and y = 4 and z = 0]
  note t'' = axis_classifier_and_unaligned_revolute [where x = 0 and y = 0 and z = 2]
  have s: "sqrt 25 = 5" "sqrt 4 = 2"
    using real_sqrt_abs2 [of 5] real_sqrt_abs2 [of 2] by simp_all
  have u: "extractCartesianAxis (1, 1, 0) = AXIS_UNALIGNED"
     "extractCartesianAxis (3, 4, 0) = AXIS_UNALIGNED"
    by (simp_all add: extractCartesianAxis_def)
  have j: "joint_type ?j = REVOLUTE" "axis ?j = (1, 1, 0)"
     "joint_type ?k = REVOLUTE" "axis ?k = (3, 4, 0)"
    by (simp_all add: exampleJoint_def)
  from t have n: "vec_normalize (1, 1, 0) = (sqrt (1 / 2), sqrt (1 / 2), 0)" by blast
  from t u j have 1: "emitJoint ?j exampleSkewHinge 0 Model_init SE3_Identity
       = addBodyFor (JointModelRevoluteUnaligned (sqrt (1 / 2), sqrt (1 / 2), 0))
           ?j exampleSkewHinge 0 Model_init SE3_Identity"
    by (simp add: real_sqrt_divide)
  from exampleHingeRobot_fixed_root n have 2:
    "\<exists>m. buildModel (\<lambda>_. Some exampleHingeRobot) ''robot.urdf'' = Inr m
          \<and> joints m
              = [JointModelUniverse,
                 JointModelRevoluteUnaligned (sqrt (1 / 2), sqrt (1 / 2), 0)]"
    by simp
  have "((1::real), (1::real), (0::real)) \<noteq> (0, 0, 0)" by simp
  with t have 3: "vec_norm (vec_normalize (1, 1, 0)) = 1" by blast
  from t' u j s have 4: "emitJoint ?k exampleSkewHinge 0 Model_init SE3_Identity
       = addBodyFor (JointModelRevoluteUnaligned (3 / 5, 4 / 5, 0))
           ?k exampleSkewHinge 0 Model_init SE3_Identity"
    by simp
  from t'' s have 5: "vec_normalize (0, 0, 2) = (0, 0, 1)" by simp
  from t' s have 6: "vec_norm (3, 4, 0) = 5" by simp
  from u 1 2 3 4 5 6 show ?thesis by blast
qed



text \<open>
  Claim C9. With \<open>update_kinematics\<close> set, \<open>jointJacobian\<close> (\<open>jacobian_proxy\<close>) gives
  the matrix, and leaves the data, that \<open>getJointJacobian\<close> (\<open>get_jacobian_proxy\<close>)
  gives on the data \<open>computeJointJacobians\<close> has updated, whatever the two algorithms
  compute.
\<close>

theorem jointJacobian_is_compute_then_get:
  "jacobian_proxy model_nv computeJointJacobians getJointJacobian model data q jointId rf True
     = get_jacobian_proxy model_nv getJointJacobian model (computeJointJacobians model data q)
         jointId rf"
  by (simp add: jacobian_proxy_def get_jacobian_proxy_def)

text \<open>
  Claim C10. Under an explicit root joint a root link without inertial block is added
  through \<open>addBody\<close> with the identity inertia, and the call goes on with its children:
  the root link itself never raises the missing-inertia error, which, when it is
  raised, comes from a link below the root. A link with a parent that is attached by a
  joint other than a fixed one and has no inertial block does raise it.
\<close>

theorem root_link_without_inertia:
  "(inertial rootLink = None \<and> 0 < length (joints model) \<longrightarrow>
      (\<exists>m1. addBody_nolimits 0 root_joint placementOffset Inertia_Identity ''root_joint''
                (link_name rootLink) True model = Inr m1
           \<and> joints m1 = joints model @ [root_joint]
           \<and> inertias m1 = inertias model @ [Inertia_Identity]
           \<and> parseTree_root rootLink model placementOffset root_joint
               = parseChildren (child_links rootLink) (Some rootLink) m1 SE3_Identity))
   \<and> (parseURDFFile filename = Some rootLink
        \<and> buildModel_root parseURDFFile filename root_joint
            = Inl (InvalidArgument (n @ '' - spatial inertia information missing.'')) \<longrightarrow>
        (\<exists>L\<in>set (linksOfList (child_links rootLink)). link_name L = n \<and> lacksInertia L))
   \<and> (parent_joint link = Some joint \<and> joint_type joint \<noteq> FIXED \<and> inertial link = None \<longrightarrow>
        visitLink link (Some parentLink) modelB placementOffsetB
          = Inl (InvalidArgument (link_name link @ '' - spatial inertia information missing.'')))"
proof (intro conjI impI)
  assume "inertial rootLink = None \<and> 0 < length (joints model)"
  then show "\<exists>m1. addBody_nolimits 0 root_joint placementOffset Inertia_Identity ''root_joint''
                (link_name rootLink) True model = Inr m1
           \<and> joints m1 = joints model @ [root_joint]
           \<and> inertias m1 = inertias model @ [Inertia_Identity]
           \<and> parseTree_root rootLink model placementOffset root_joint
               = parseChildren (child_links rootLink) (Some rootLink) m1 SE3_Identity"
    using parseTree_root_bare by blast
next
  assume "parseURDFFile filename = Some rootLink
        \<and> buildModel_root parseURDFFile filename root_joint
            = Inl (InvalidArgument (n @ '' - spatial inertia information missing.''))"
  then have "parseTree_root rootLink Model_init SE3_Identity root_joint
     = Inl (InvalidArgument (n @ '' - spatial inertia information missing.''))"
    by (auto simp: buildModel_root_def)
  from parseTree_root_Inl [OF this]
  show "\<exists>L\<in>set (linksOfList (child_links rootLink)). link_name L = n \<and> lacksInertia L"
    by (rule parseTree_MissingInertia(2))
next
  assume "parent_joint link = Some joint \<and> joint_type joint \<noteq> FIXED \<and> inertial link = None"
  then show "visitLink link (Some parentLink) modelB placementOffsetB
          = Inl (InvalidArgument (link_name link @ '' - spatial inertia information missing.''))"
    by (simp add: visitLink_def)
qed

theorem root_link_without_inertia_witness:
  "inertial exampleBareRoot = None
   \<and> (\<exists>m1. addBody_nolimits 0 JointModelFreeFlyer SE3_Identity Inertia_Identity ''root_joint''
              ''base'' True Model_init = Inr m1
          \<and> inertias m1 = [Inertia_Zero, Inertia_Identity]
          \<and> parseTree_root exampleBareRoot Model_init SE3_Identity JointModelFreeFlyer
              = parseChildren [exampleArm] (Some exampleBareRoot) m1 SE3_Identity)
   \<and> (\<exists>m. buildModel_root (\<lambda>_. Some exampleBareRoot) ''robot.urdf'' JointModelFreeFlyer = Inr m)
   \<and> buildModel_root (\<lambda>_. Some exampleBareRootTip) ''robot.urdf'' JointModelFreeFlyer
       = Inl (InvalidArgument (''tip'' @ '' - spatial inertia information missing.''))
   \<and> (\<exists>L\<in>set (linksOfList (child_links exampleBareRootTip)).
         link_name L = ''tip'' \<and> lacksInertia L)
   \<and> visitLink exampleNoInertia (Some exampleBareRootTip) Model_init SE3_Identity
       = Inl (InvalidArgument ''tip - spatial inertia information missing.'')"
proof -
  have h1: "inertial exampleBareRoot = None" "0 < length (joints Model_init)"
    by (simp_all add: exampleBareRoot_def Model_init_def)
  have n: "link_name exampleBareRoot = ''base''" "child_links exampleBareRoot = [exampleArm]"
    "inertias Model_init = [Inertia_Zero]"
    by (simp_all add: exampleBareRoot_def Model_init_def)
  from root_link_without_inertia
         [where rootLink = exampleBareRoot and model = Model_init
            and root_joint = JointModelFreeFlyer and placementOffset = SE3_Identity] h1
  obtain m1 where
    a: "addBody_nolimits 0 JointModelFreeFlyer SE3_Identity Inertia_Identity ''root_joint''
          (link_name exampleBareRoot) True Model_init = Inr m1" and
    b: "inertias m1 = inertias Model_init @ [Inertia_Identity]" and
    c: "parseTree_root exampleBareRoot Model_init SE3_Identity JointModelFreeFlyer
          = parseChildren (child_links exampleBareRoot) (Some exampleBareRoot) m1 SE3_Identity"
    by blast
  from a b c have 1: "\<exists>m1. addBody_nolimits 0 JointModelFreeFlyer SE3_Identity Inertia_Identity ''root_joint''
              ''base'' True Model_init = Inr m1
          \<and> inertias m1 = [Inertia_Zero, Inertia_Identity]
          \<and> parseTree_root exampleBareRoot Model_init SE3_Identity JointModelFreeFlyer
              = parseChildren [exampleArm] (Some exampleBareRoot) m1 SE3_Identity"
    unfolding n by (intro exI [of _ m1]) (simp only: append.simps simp_thms)
  from exampleBareRoot_explicit_root have 2:
    "\<exists>m. buildModel_root (\<lambda>_. Some exampleBareRoot) ''robot.urdf'' JointModelFreeFlyer = Inr m"
    by blast
  have 3: "buildModel_root (\<lambda>_. Some exampleBareRootTip) ''robot.urdf'' JointModelFreeFlyer
       = Inl (InvalidArgument (''tip'' @ '' - spatial inertia information missing.''))"
    using exampleBareRootTip_explicit_root by simp
  from root_link_without_inertia
         [where parseURDFFile = "\<lambda>_. Some exampleBareRootTip" and filename = "''robot.urdf''"
            and rootLink = exampleBareRootTip and root_joint = JointModelFreeFlyer
            and n = "''tip''"] 3
  have 4: "\<exists>L\<in>set (linksOfList (child_links exampleBareRootTip)).
         link_name L = ''tip'' \<and> lacksInertia L"
    by blast
  have h5: "parent_joint exampleNoInertia = Some (exampleJoint ''j4'' REVOLUTE (0, 0, 1) None)"
    "joint_type (exampleJoint ''j4'' REVOLUTE (0, 0, 1) None) \<noteq> FIXED"
    "inertial exampleNoInertia = None" "link_name exampleNoInertia = ''tip''"
    by (simp_all add: exampleNoInertia_def exampleJoint_def)
  from root_link_without_inertia
         [where link = exampleNoInertia and joint = "exampleJoint ''j4'' REVOLUTE (0, 0, 1) None"
            and parentLink = exampleBareRootTip and modelB = Model_init
            and placementOffsetB = SE3_Identity] h5
  have 5: "visitLink exampleNoInertia (Some exampleBareRootTip) Model_init SE3_Identity
       = Inl (InvalidArgument ''tip - spatial inertia information missing.'')"
    by simp
  from h1 1 2 3 4 5 show ?thesis by blast
qed

end
